theory Spec2Isabelle
  imports Main "HOL-Library.Word"
begin

section \<open>JavaScript values used by the license server\<close>

text \<open>
  The repository holds two versions of \<^verbatim>\<open>public-server.js\<close>. The first keeps the
  parsed data file in the variable \<^verbatim>\<open>state\<close> and works on that object; the second
  reads \<^verbatim>\<open>server.json\<close> anew in every handler and also keeps a pending list and a
  \<^verbatim>\<open>lastSeen\<close> object. Both are embedded here, the first with names ending in 1
  and the second with names ending in 2, except where the source itself has two names
  (\<^verbatim>\<open>loadData\<close> and \<^verbatim>\<open>loadServerData\<close>).

  A JavaScript string is a sequence of UTF-16 code units, \<^typ>\<open>16 word list\<close>; the
  literals of the source are ASCII and are written \<open>lit ''...''\<close>, the empty string
  \<open>[]\<close>. A device identifier is a string, as the data model of the specification has
  it; a value that may be \<^verbatim>\<open>undefined\<close> or \<^verbatim>\<open>null\<close> is an option.
\<close>

type_synonym jsstring = "16 word list"

definition lit :: "string \<Rightarrow> jsstring" where
  "lit s = map of_char s"

text \<open>The code units that \<^verbatim>\<open>String.prototype.trim\<close> removes, the white space and
  line terminators of ECMAScript: U+0009 to U+000D, U+0020, U+00A0, U+1680, U+2000 to
  U+200A, U+2028, U+2029, U+202F, U+205F, U+3000 and U+FEFF. Each is one code unit.\<close>

definition is_space :: "16 word \<Rightarrow> bool" where
  "is_space c \<longleftrightarrow>
     (0x0009 \<le> c \<and> c \<le> 0x000D) \<or> c = 0x0020 \<or> c = 0x00A0 \<or> c = 0x1680
     \<or> (0x2000 \<le> c \<and> c \<le> 0x200A) \<or> c = 0x2028 \<or> c = 0x2029 \<or> c = 0x202F
     \<or> c = 0x205F \<or> c = 0x3000 \<or> c = 0xFEFF"

definition trim :: "jsstring \<Rightarrow> jsstring" where
  "trim s = rev (dropWhile is_space (rev (dropWhile is_space s)))"

text \<open>\<^verbatim>\<open>x || d\<close> where \<open>x\<close> is a string or undefined: the empty string is falsy.\<close>

fun or_string :: "jsstring option \<Rightarrow> jsstring \<Rightarrow> jsstring" where
  "or_string None d = d"
| "or_string (Some s) d = (if s = [] then d else s)"

text \<open>\<^verbatim>\<open>x || d\<close> where \<open>x\<close> is an array, an object or undefined: arrays and objects
  are truthy, also when empty.\<close>

fun or_value :: "'a option \<Rightarrow> 'a \<Rightarrow> 'a" where
  "or_value None d = d"
| "or_value (Some v) d = v"

text \<open>\<^verbatim>\<open>obj[k] = v\<close> on an ordinary object whose own properties are \<open>m\<close> and whose value
  \<open>v\<close> is a string: the key \<^verbatim>\<open>__proto__\<close>, unless the object has it as an own property
  (as \<^verbatim>\<open>JSON.parse\<close> can create it), reaches the setter of \<^verbatim>\<open>Object.prototype\<close>, which
  ignores a string; every other key becomes or stays an own property.\<close>

definition obj_set :: "(jsstring \<rightharpoonup> jsstring) \<Rightarrow> jsstring \<Rightarrow> jsstring \<Rightarrow> (jsstring \<rightharpoonup> jsstring)" where
  "obj_set m k v = (if k = lit ''__proto__'' \<and> m k = None then m else m(k \<mapsto> v))"

text \<open>\<^verbatim>\<open>process.env.ADMIN_TOKEN || '...'\<close>; the argument is the environment variable.\<close>

definition DEFAULT_ADMIN_TOKEN :: "jsstring option \<Rightarrow> jsstring" where
  "DEFAULT_ADMIN_TOKEN env = or_string env (lit ''admin_7f9e2a1b_8c4d_9e5f_0a1b_2c3d4e5f6a7b'')"


section \<open>The data file\<close>

text \<open>
  What \<^verbatim>\<open>fs\<close> and \<^verbatim>\<open>JSON.parse\<close> make of \<^verbatim>\<open>server.json\<close>: the file is missing, or
  it exists and cannot be read, or it holds a text that is empty, or not JSON, or the
  JSON text of an object \<open>d\<close>. A write succeeds or throws; \<open>writable\<close> says which.
  A file that cannot be read stays so: a write to it may succeed (a write-only file),
  and every later read fails as before.
\<close>

datatype 'd contents = Blank | Garbage | Json 'd

datatype 'd stored = Missing | Unreadable | Holds "'d contents"

record 'd fs =
  stored :: "'d stored"
  writable :: bool

datatype error = Read_error | Syntax_error | Write_error

definition existsSync :: "'d fs \<Rightarrow> bool" where
  "existsSync d = (case stored d of Missing \<Rightarrow> False | _ \<Rightarrow> True)"

definition readFileSync :: "'d fs \<Rightarrow> error + 'd contents" where
  "readFileSync d = (case stored d of Holds c \<Rightarrow> Inr c | _ \<Rightarrow> Inl Read_error)"

definition JSON_parse :: "'d contents \<Rightarrow> error + 'd" where
  "JSON_parse c = (case c of Json d \<Rightarrow> Inr d | _ \<Rightarrow> Inl Syntax_error)"

text \<open>\<^verbatim>\<open>fs.writeFileSync(FILE, JSON.stringify(d, null, 2))\<close>\<close>

definition writeFileSync :: "'d \<Rightarrow> 'd fs \<Rightarrow> error + 'd fs" where
  "writeFileSync d f =
     (if writable f then
        Inr (case stored f of Unreadable \<Rightarrow> f | _ \<Rightarrow> f\<lparr>stored := Holds (Json d)\<rparr>)
      else Inl Write_error)"

text \<open>The object a data file holds: each member may be absent. The first version reads
  three members, the second five.\<close>

record parsed =
  p_adminToken :: "jsstring option"
  p_allow :: "jsstring list option"
  p_block :: "jsstring list option"

record parsed2 = parsed +
  p_pending :: "jsstring list option"
  p_lastSeen :: "(jsstring \<rightharpoonup> jsstring) option"

text \<open>The store: \<^verbatim>\<open>state\<close> of the first version, \<^verbatim>\<open>serverData\<close> of the second.\<close>

record state =
  adminToken :: jsstring
  allow :: "jsstring list"
  block :: "jsstring list"

record serverData = state +
  pending :: "jsstring list"
  lastSeen :: "jsstring \<rightharpoonup> jsstring"

definition stringify :: "state \<Rightarrow> parsed" where
  "stringify s = \<lparr>p_adminToken = Some (adminToken s), p_allow = Some (allow s),
     p_block = Some (block s)\<rparr>"

definition stringify2 :: "serverData \<Rightarrow> parsed2" where
  "stringify2 s = \<lparr>p_adminToken = Some (adminToken s), p_allow = Some (allow s),
     p_block = Some (block s), p_pending = Some (pending s), p_lastSeen = Some (lastSeen s)\<rparr>"


section \<open>Replies\<close>

record decision =
  allowed :: bool
  forceExit :: bool
  intervalSec :: nat
  reason :: jsstring

datatype body =
    Decision decision
  | Error jsstring
  | Allow_list "jsstring list"
  | Block_list "jsstring list"
  | Pending_list "jsstring list"
  | Listing "jsstring list" "jsstring list"
  | Listing2 "jsstring list" "jsstring list" "jsstring list" "jsstring \<rightharpoonup> jsstring"
  | Empty_object
  | Health "jsstring option"

type_synonym reply = "nat \<times> body"

definition sendJson :: "nat \<Rightarrow> body \<Rightarrow> reply" where
  "sendJson code b = (code, b)"

text \<open>The body of a POST request: a text that is not JSON, or an object whose
  \<^verbatim>\<open>deviceId\<close> member is a string or absent.\<close>

datatype payload = Bad_JSON | Obj "jsstring option"

text \<open>A request, by the route that serves it, with what the route reads of it: the
  \<^verbatim>\<open>deviceId\<close> parameter or the body, and for the routes that use the clock the time
  they read.\<close>

datatype request =
    Options
  | Get_health jsstring
  | Check "jsstring option" jsstring
  | List_all
  | Allow payload
  | Block payload
  | Unallow "jsstring option"
  | Unblock "jsstring option"
  | Clear_pending
  | Other


section \<open>First version: the store in memory\<close>

text \<open>\<^verbatim>\<open>loadData\<close>: the whole body stands in a \<^verbatim>\<open>try\<close> whose \<^verbatim>\<open>catch\<close> returns a seed
  (\<open>caught\<close>). An empty text is parsed as \<^verbatim>\<open>'{}'\<close> (\<^verbatim>\<open>raw || '{}'\<close>). A member
  \<^verbatim>\<open>allow\<close> or \<^verbatim>\<open>block\<close> that is not an array counts as absent.\<close>

definition loadData :: "jsstring option \<Rightarrow> parsed fs \<Rightarrow> state \<times> parsed fs" where
  "loadData env d =
     (let caught = \<lparr>adminToken = DEFAULT_ADMIN_TOKEN env, allow = [], block = []\<rparr> in
      if \<not> existsSync d then
        (let seed = \<lparr>adminToken = DEFAULT_ADMIN_TOKEN env, allow = [], block = []\<rparr> in
         case writeFileSync (stringify seed) d of
           Inr d' \<Rightarrow> (seed, d')
         | Inl e \<Rightarrow> (caught, d))
      else
        (case readFileSync d of
           Inl e \<Rightarrow> (caught, d)
         | Inr raw \<Rightarrow>
            (case JSON_parse
                    (case raw of
                       Blank \<Rightarrow> Json \<lparr>p_adminToken = None, p_allow = None, p_block = None\<rparr>
                     | _ \<Rightarrow> raw) of
               Inl e \<Rightarrow> (caught, d)
             | Inr p \<Rightarrow>
                (\<lparr>adminToken = or_string (p_adminToken p) (DEFAULT_ADMIN_TOKEN env),
                  allow = (case p_allow p of Some xs \<Rightarrow> xs | None \<Rightarrow> []),
                  block = (case p_block p of Some xs \<Rightarrow> xs | None \<Rightarrow> [])\<rparr>, d))))"

definition saveData :: "state \<Rightarrow> parsed fs \<Rightarrow> parsed fs" where
  "saveData s d = (case writeFileSync (stringify s) d of Inr d' \<Rightarrow> d' | Inl e \<Rightarrow> d)"

text \<open>The running process: the variable \<^verbatim>\<open>state\<close> and the file beside it.\<close>

record server =
  state :: state
  disk :: "parsed fs"

definition boot :: "jsstring option \<Rightarrow> parsed fs \<Rightarrow> server" where
  "boot env d = (let (s, d') = loadData env d in \<lparr>state = s, disk = d'\<rparr>)"

text \<open>\<^verbatim>\<open>readBody\<close> resolves to the parsed object, and to \<^verbatim>\<open>{}\<close> when the text does
  not parse; the handlers read its \<^verbatim>\<open>deviceId\<close>.\<close>

definition readBody :: "payload \<Rightarrow> jsstring option" where
  "readBody b = (case b of Bad_JSON \<Rightarrow> None | Obj f \<Rightarrow> f)"

text \<open>GET /check. The argument is \<^verbatim>\<open>searchParams.get('deviceId')\<close>.\<close>

definition check1 :: "server \<Rightarrow> jsstring option \<Rightarrow> reply \<times> server" where
  "check1 srv q =
     (let deviceId = trim (or_string q []);
          (allowed, reason) =
            (if deviceId = [] then (False, lit ''missing deviceId'')
             else if deviceId \<in> set (block (state srv)) then (False, lit ''blocked'')
             else if deviceId \<in> set (allow (state srv)) then (True, [])
             else (False, lit ''not allowed''))
      in (sendJson 200 (Decision \<lparr>allowed = allowed, forceExit = \<not> allowed,
            intervalSec = 30, reason = reason\<rparr>), srv))"

text \<open>GET /list\<close>

definition list1 :: "server \<Rightarrow> reply \<times> server" where
  "list1 srv = (sendJson 200 (Listing (allow (state srv)) (block (state srv))), srv)"

text \<open>POST /allow\<close>

definition allow1 :: "server \<Rightarrow> payload \<Rightarrow> reply \<times> server" where
  "allow1 srv b =
     (let deviceId = trim (or_string (readBody b) []) in
      if deviceId = [] then (sendJson 400 (Error (lit ''deviceId required'')), srv)
      else
        (let s = state srv;
             s1 = (if deviceId \<notin> set (allow s) then s\<lparr>allow := allow s @ [deviceId]\<rparr> else s);
             s2 = s1\<lparr>block := filter (\<lambda>x. x \<noteq> deviceId) (block s1)\<rparr>
         in (sendJson 200 (Allow_list (allow s2)), \<lparr>state = s2, disk = saveData s2 (disk srv)\<rparr>)))"

text \<open>POST /block\<close>

definition block1 :: "server \<Rightarrow> payload \<Rightarrow> reply \<times> server" where
  "block1 srv b =
     (let deviceId = trim (or_string (readBody b) []) in
      if deviceId = [] then (sendJson 400 (Error (lit ''deviceId required'')), srv)
      else
        (let s = state srv;
             s1 = (if deviceId \<notin> set (block s) then s\<lparr>block := block s @ [deviceId]\<rparr> else s);
             s2 = s1\<lparr>allow := filter (\<lambda>x. x \<noteq> deviceId) (allow s1)\<rparr>
         in (sendJson 200 (Block_list (block s2)), \<lparr>state = s2, disk = saveData s2 (disk srv)\<rparr>)))"

text \<open>DELETE /allow and DELETE /block\<close>

definition unallow1 :: "server \<Rightarrow> jsstring option \<Rightarrow> reply \<times> server" where
  "unallow1 srv q =
     (let deviceId = trim (or_string q []);
          s = state srv;
          s1 = s\<lparr>allow := filter (\<lambda>x. x \<noteq> deviceId) (allow s)\<rparr>
      in (sendJson 200 (Allow_list (allow s1)), \<lparr>state = s1, disk = saveData s1 (disk srv)\<rparr>))"

definition unblock1 :: "server \<Rightarrow> jsstring option \<Rightarrow> reply \<times> server" where
  "unblock1 srv q =
     (let deviceId = trim (or_string q []);
          s = state srv;
          s1 = s\<lparr>block := filter (\<lambda>x. x \<noteq> deviceId) (block s)\<rparr>
      in (sendJson 200 (Block_list (block s1)), \<lparr>state = s1, disk = saveData s1 (disk srv)\<rparr>))"

text \<open>The bearer token of the \<^verbatim>\<open>Authorization\<close> header: \<open>Some t\<close> when the header is
  \<^verbatim>\<open>Bearer\<close> followed by \<open>t\<close>, \<open>None\<close> when it is absent or has another form.\<close>

definition isAuthorized :: "server \<Rightarrow> jsstring option \<Rightarrow> bool" where
  "isAuthorized srv bearer =
     (let token = (case bearer of Some t \<Rightarrow> t | None \<Rightarrow> [])
      in token \<noteq> [] \<and> token = adminToken (state srv))"

text \<open>The request listener: the routes in the order of the source.\<close>

definition handle1 :: "server \<Rightarrow> jsstring option \<Rightarrow> request \<Rightarrow> reply \<times> server" where
  "handle1 srv bearer req =
     (case req of
        Options \<Rightarrow> (sendJson 200 Empty_object, srv)
      | Get_health t \<Rightarrow> (sendJson 200 (Health None), srv)
      | Check q t \<Rightarrow> check1 srv q
      | _ \<Rightarrow>
         if \<not> isAuthorized srv bearer then (sendJson 401 (Error (lit ''Unauthorized'')), srv)
         else
           (case req of
              List_all \<Rightarrow> list1 srv
            | Allow b \<Rightarrow> allow1 srv b
            | Block b \<Rightarrow> block1 srv b
            | Unallow q \<Rightarrow> unallow1 srv q
            | Unblock q \<Rightarrow> unblock1 srv q
            | _ \<Rightarrow> (sendJson 404 (Error (lit ''Not found'')), srv)))"


section \<open>Second version: the store on disk, with pending devices\<close>

text \<open>\<^verbatim>\<open>loadServerData\<close>: \<open>tried\<close> is the outcome of the \<^verbatim>\<open>try\<close> block, a thrown error,
  or no return because the file does not exist, or the store returned. In the first two
  cases the seed is written, if it can be, and returned.\<close>

definition loadServerData :: "jsstring option \<Rightarrow> parsed2 fs \<Rightarrow> serverData \<times> parsed2 fs" where
  "loadServerData env d =
     (let tried =
            (if existsSync d then
               (case readFileSync d of
                  Inl e \<Rightarrow> Inl e
                | Inr data \<Rightarrow>
                   (case JSON_parse data of
                      Inl e \<Rightarrow> Inl e
                    | Inr p \<Rightarrow> Inr (Some
                        \<lparr>adminToken = or_string (p_adminToken p) (DEFAULT_ADMIN_TOKEN env),
                         allow = or_value (p_allow p) [],
                         block = or_value (p_block p) [],
                         pending = or_value (p_pending p) [],
                         lastSeen = or_value (p_lastSeen p) Map.empty\<rparr>)))
             else Inr None)
      in case tried of
           Inr (Some s) \<Rightarrow> (s, d)
         | _ \<Rightarrow>
            (let seed = \<lparr>adminToken = DEFAULT_ADMIN_TOKEN env, allow = [], block = [],
                        pending = [], lastSeen = Map.empty\<rparr>
             in (seed, case writeFileSync (stringify2 seed) d of Inr d' \<Rightarrow> d' | Inl e \<Rightarrow> d)))"

definition saveServerData :: "serverData \<Rightarrow> parsed2 fs \<Rightarrow> parsed2 fs" where
  "saveServerData s d = (case writeFileSync (stringify2 s) d of Inr d' \<Rightarrow> d' | Inl e \<Rightarrow> d)"

text \<open>/check. The arguments are \<^verbatim>\<open>searchParams.get('deviceId')\<close> and the time
  \<^verbatim>\<open>new Date().toISOString()\<close>; the version parameter is only logged.\<close>

definition check2 :: "jsstring option \<Rightarrow> parsed2 fs \<Rightarrow> jsstring option \<Rightarrow> jsstring \<Rightarrow> reply \<times> parsed2 fs" where
  "check2 env d q now =
     (let deviceId = trim (or_string q []) in
      if deviceId = [] then
        (sendJson 400 (Decision \<lparr>allowed = False, forceExit = True, intervalSec = 30,
           reason = lit ''missing deviceId''\<rparr>), d)
      else
        (let (s0, d1) = loadServerData env d;
             s = s0\<lparr>lastSeen := obj_set (lastSeen s0) deviceId now\<rparr>
         in if deviceId \<in> set (allow s) then
              (sendJson 200 (Decision \<lparr>allowed = True, forceExit = False, intervalSec = 30,
                 reason = []\<rparr>), saveServerData s d1)
            else if deviceId \<in> set (block s) then
              (sendJson 200 (Decision \<lparr>allowed = False, forceExit = True, intervalSec = 30,
                 reason = lit ''device blocked''\<rparr>), saveServerData s d1)
            else
              (let s' = (if deviceId \<notin> set (pending s)
                         then s\<lparr>pending := pending s @ [deviceId]\<rparr> else s)
               in (sendJson 200 (Decision \<lparr>allowed = False, forceExit = True, intervalSec = 30,
                     reason = lit ''not allowed''\<rparr>), saveServerData s' d1))))"

text \<open>/list\<close>

definition list2 :: "jsstring option \<Rightarrow> parsed2 fs \<Rightarrow> reply \<times> parsed2 fs" where
  "list2 env d =
     (let (s, d1) = loadServerData env d
      in (sendJson 200 (Listing2 (allow s) (block s) (pending s) (lastSeen s)), d1))"

text \<open>POST /allow\<close>

definition allow2 :: "jsstring option \<Rightarrow> parsed2 fs \<Rightarrow> payload \<Rightarrow> reply \<times> parsed2 fs" where
  "allow2 env d b =
     (case b of
        Bad_JSON \<Rightarrow> (sendJson 400 (Error (lit ''Invalid JSON'')), d)
      | Obj f \<Rightarrow>
         (let deviceId = or_string f [] in
          if deviceId = [] then (sendJson 400 (Error (lit ''deviceId required'')), d)
          else
            (let (s0, d1) = loadServerData env d;
                 s1 = s0\<lparr>pending := filter (\<lambda>i. i \<noteq> deviceId) (pending s0)\<rparr>;
                 s2 = s1\<lparr>block := filter (\<lambda>i. i \<noteq> deviceId) (block s1)\<rparr>;
                 s3 = (if deviceId \<notin> set (allow s2)
                       then s2\<lparr>allow := allow s2 @ [deviceId]\<rparr> else s2)
             in (sendJson 200 (Allow_list (allow s3)), saveServerData s3 d1))))"

text \<open>POST /block\<close>

definition block2 :: "jsstring option \<Rightarrow> parsed2 fs \<Rightarrow> payload \<Rightarrow> reply \<times> parsed2 fs" where
  "block2 env d b =
     (case b of
        Bad_JSON \<Rightarrow> (sendJson 400 (Error (lit ''Invalid JSON'')), d)
      | Obj f \<Rightarrow>
         (let deviceId = or_string f [] in
          if deviceId = [] then (sendJson 400 (Error (lit ''deviceId required'')), d)
          else
            (let (s0, d1) = loadServerData env d;
                 s1 = s0\<lparr>pending := filter (\<lambda>i. i \<noteq> deviceId) (pending s0)\<rparr>;
                 s2 = s1\<lparr>allow := filter (\<lambda>i. i \<noteq> deviceId) (allow s1)\<rparr>;
                 s3 = (if deviceId \<notin> set (block s2)
                       then s2\<lparr>block := block s2 @ [deviceId]\<rparr> else s2)
             in (sendJson 200 (Block_list (block s3)), saveServerData s3 d1))))"

text \<open>DELETE /allow and DELETE /block\<close>

definition unallow2 :: "jsstring option \<Rightarrow> parsed2 fs \<Rightarrow> jsstring option \<Rightarrow> reply \<times> parsed2 fs" where
  "unallow2 env d q =
     (let deviceId = or_string q [] in
      if deviceId = [] then (sendJson 400 (Error (lit ''deviceId required'')), d)
      else
        (let (s0, d1) = loadServerData env d;
             s1 = s0\<lparr>allow := filter (\<lambda>i. i \<noteq> deviceId) (allow s0)\<rparr>
         in (sendJson 200 (Allow_list (allow s1)), saveServerData s1 d1)))"

definition unblock2 :: "jsstring option \<Rightarrow> parsed2 fs \<Rightarrow> jsstring option \<Rightarrow> reply \<times> parsed2 fs" where
  "unblock2 env d q =
     (let deviceId = or_string q [] in
      if deviceId = [] then (sendJson 400 (Error (lit ''deviceId required'')), d)
      else
        (let (s0, d1) = loadServerData env d;
             s1 = s0\<lparr>block := filter (\<lambda>i. i \<noteq> deviceId) (block s0)\<rparr>
         in (sendJson 200 (Block_list (block s1)), saveServerData s1 d1)))"

text \<open>DELETE /pending\<close>

definition clearPending2 :: "jsstring option \<Rightarrow> parsed2 fs \<Rightarrow> reply \<times> parsed2 fs" where
  "clearPending2 env d =
     (let (s0, d1) = loadServerData env d;
          s1 = s0\<lparr>pending := []\<rparr>
      in (sendJson 200 (Pending_list []), saveServerData s1 d1))"

definition authenticateRequest :: "jsstring option \<Rightarrow> parsed2 fs \<Rightarrow> jsstring option \<Rightarrow> bool \<times> parsed2 fs" where
  "authenticateRequest env d bearer =
     (case bearer of
        None \<Rightarrow> (False, d)
      | Some token \<Rightarrow>
         (let (serverData, d1) = loadServerData env d
          in (token = adminToken serverData, d1)))"

text \<open>The request listener: the routes in the order of the source.\<close>

definition handle2 :: "jsstring option \<Rightarrow> parsed2 fs \<Rightarrow> jsstring option \<Rightarrow> request \<Rightarrow> reply \<times> parsed2 fs" where
  "handle2 env d bearer req =
     (case req of
        Options \<Rightarrow> (sendJson 200 Empty_object, d)
      | Get_health t \<Rightarrow> (sendJson 200 (Health (Some t)), d)
      | Check q t \<Rightarrow> check2 env d q t
      | _ \<Rightarrow>
         (let (ok, d1) = authenticateRequest env d bearer in
          if \<not> ok then (sendJson 401 (Error (lit ''Unauthorized'')), d1)
          else
            (case req of
               List_all \<Rightarrow> list2 env d1
             | Allow b \<Rightarrow> allow2 env d1 b
             | Block b \<Rightarrow> block2 env d1 b
             | Unallow q \<Rightarrow> unallow2 env d1 q
             | Unblock q \<Rightarrow> unblock2 env d1 q
             | Clear_pending \<Rightarrow> clearPending2 env d1
             | _ \<Rightarrow> (sendJson 404 (Error (lit ''Not found'')), d1))))"


section \<open>Observing the store\<close>

text \<open>The store the second version works on is whatever \<^verbatim>\<open>loadServerData\<close> returns
  for the file; this is also what \<^verbatim>\<open>/list\<close> shows.\<close>

abbreviation store2 :: "jsstring option \<Rightarrow> parsed2 fs \<Rightarrow> serverData" where
  "store2 env d \<equiv> fst (loadServerData env d)"

text \<open>A write to the data file goes through and the next read returns it: the file can
  be written, and it is not one that cannot be read.\<close>

definition persists :: "'d fs \<Rightarrow> bool" where
  "persists d = (writable d \<and> (case stored d of Unreadable \<Rightarrow> False | _ \<Rightarrow> True))"

text \<open>No prior persisted state: the data file holds no JSON object.\<close>

definition fresh :: "'d fs \<Rightarrow> bool" where
  "fresh d = (case stored d of Holds (Json p) \<Rightarrow> False | _ \<Rightarrow> True)"

text \<open>Invariant I1 on a store: no identifier is in both the allow list and the block
  list.\<close>

abbreviation I1 :: "'a state_scheme \<Rightarrow> bool" where
  "I1 s \<equiv> set (allow s) \<inter> set (block s) = {}"

text \<open>
  The states the first version reaches: it starts on a data file with no prior state,
  serves requests, and may be restarted on the file it left. The states of the data file
  the second version reaches: it starts with no prior state and serves requests. In
  both, the file may turn writable or unwritable at any time.
\<close>

inductive reachable1 :: "jsstring option \<Rightarrow> server \<Rightarrow> bool" for env :: "jsstring option" where
  start1: "fresh d \<Longrightarrow> reachable1 env (boot env d)"
| request1: "reachable1 env srv \<Longrightarrow> reachable1 env (snd (handle1 srv bearer req))"
| restart1: "reachable1 env srv \<Longrightarrow> reachable1 env (boot env (disk srv))"
| mode1: "reachable1 env srv \<Longrightarrow> reachable1 env (srv\<lparr>disk := (disk srv)\<lparr>writable := w\<rparr>\<rparr>)"

inductive reachable2 :: "jsstring option \<Rightarrow> parsed2 fs \<Rightarrow> bool" for env :: "jsstring option" where
  start2: "fresh d \<Longrightarrow> reachable2 env d"
| request2: "reachable2 env d \<Longrightarrow> reachable2 env (snd (handle2 env d bearer req))"
| mode2: "reachable2 env d \<Longrightarrow> reachable2 env (d\<lparr>writable := w\<rparr>)"

section \<open>Properties\<close>

subsection \<open>Loading and saving\<close>

lemma lit_eq_Nil [simp]: "lit s = [] \<longleftrightarrow> s = []"
  by (simp add: lit_def)

lemma DEFAULT_ADMIN_TOKEN_nonempty: "DEFAULT_ADMIN_TOKEN env \<noteq> []"
  by (cases env) (simp_all add: DEFAULT_ADMIN_TOKEN_def lit_def)

lemma or_string_nonempty: "t \<noteq> [] \<Longrightarrow> or_string x t \<noteq> []"
  by (cases x) simp_all

lemma adminToken_load2: "adminToken (store2 env d) \<noteq> []"
  by (auto simp: loadServerData_def existsSync_def readFileSync_def JSON_parse_def Let_def
      DEFAULT_ADMIN_TOKEN_nonempty or_string_nonempty
      split: stored.splits contents.splits)

lemma persists_load2: "persists (snd (loadServerData env d)) = persists d"
  by (auto simp: persists_def loadServerData_def existsSync_def readFileSync_def JSON_parse_def
      Let_def writeFileSync_def split: stored.splits contents.splits)

lemma persists_save2: "persists (saveServerData s d) = persists d"
  by (auto simp: persists_def saveServerData_def writeFileSync_def split: stored.splits)

lemma load2_not_persists: "\<not> persists d \<Longrightarrow> snd (loadServerData env d) = d"
  by (auto simp: persists_def loadServerData_def existsSync_def readFileSync_def JSON_parse_def
      Let_def writeFileSync_def split: stored.splits contents.splits)

lemma save2_not_persists: "\<not> persists d \<Longrightarrow> saveServerData s d = d"
  by (auto simp: persists_def saveServerData_def writeFileSync_def split: stored.splits)

lemma load2_save2:
  "persists d \<Longrightarrow> adminToken s \<noteq> [] \<Longrightarrow> store2 env (saveServerData s d) = s"
  by (auto simp: persists_def loadServerData_def saveServerData_def writeFileSync_def
      existsSync_def readFileSync_def JSON_parse_def stringify2_def split: stored.splits)

lemma load2_twice: "store2 env (snd (loadServerData env d)) = store2 env d"
  by (auto simp: loadServerData_def existsSync_def readFileSync_def JSON_parse_def Let_def
      writeFileSync_def stringify2_def DEFAULT_ADMIN_TOKEN_nonempty
      split: stored.splits contents.splits)

lemma store2_after_save:
  assumes "adminToken s = adminToken (store2 env d)"
  shows "store2 env (saveServerData s (snd (loadServerData env d))) =
           (if persists d then s else store2 env d)"
proof (cases "persists d")
  case True
  then show ?thesis
    using assms by (simp add: load2_save2 persists_load2 adminToken_load2)
next
  case False
  then show ?thesis
    by (simp add: load2_not_persists save2_not_persists)
qed


lemma allow2_post:
  assumes "r \<noteq> []" "persists d"
  shows "fst (allow2 env d (Obj (Some r))) =
           sendJson 200 (Allow_list (allow (store2 env (snd (allow2 env d (Obj (Some r)))))))
       \<and> r \<in> set (allow (store2 env (snd (allow2 env d (Obj (Some r))))))
       \<and> r \<notin> set (block (store2 env (snd (allow2 env d (Obj (Some r))))))
       \<and> r \<notin> set (pending (store2 env (snd (allow2 env d (Obj (Some r))))))"
  using assms by (simp add: allow2_def split_beta Let_def store2_after_save)

lemma allow2_store:
  assumes "r \<noteq> []" "persists d"
  shows "store2 env (snd (allow2 env d (Obj (Some r)))) =
     (let s0 = store2 env d;
          s2 = s0\<lparr>pending := filter (\<lambda>i. i \<noteq> r) (pending s0), block := filter (\<lambda>i. i \<noteq> r) (block s0)\<rparr>
      in if r \<notin> set (allow s2) then s2\<lparr>allow := allow s2 @ [r]\<rparr> else s2)"
  using assms by (simp add: allow2_def split_beta Let_def store2_after_save)

lemma allow2_twice:
   assumes "r \<noteq> []" "persists d"
  shows "allow (store2 env (snd (allow2 env (snd (allow2 env d (Obj (Some r)))) (Obj (Some r))))) =
         allow (store2 env (snd (allow2 env d (Obj (Some r)))))"
proof -
  have w: "persists (snd (allow2 env d (Obj (Some r))))"
    using assms by (simp add: allow2_def split_beta Let_def persists_save2 persists_load2)
  show ?thesis
    by (simp add: allow2_store [OF assms(1) w] allow2_store [OF assms] Let_def)
qed

lemma check2_store:
  assumes "trim (or_string q []) = k" "k \<noteq> []"
  shows "store2 env (snd (check2 env d q now)) =
     (if persists d then
        (let s = (store2 env d)\<lparr>lastSeen := obj_set (lastSeen (store2 env d)) k now\<rparr>
         in if k \<in> set (allow s) \<or> k \<in> set (block s) \<or> k \<in> set (pending s) then s
            else s\<lparr>pending := pending s @ [k]\<rparr>)
      else store2 env d)"
  using assms by (auto simp add: check2_def split_beta Let_def store2_after_save)

lemma check2_reply:
  assumes "trim (or_string q []) = k" "k \<noteq> []"
  shows "fst (check2 env d q now) =
     sendJson 200 (Decision
       (if k \<in> set (allow (store2 env d)) then
          \<lparr>allowed = True, forceExit = False, intervalSec = 30, reason = []\<rparr>
        else if k \<in> set (block (store2 env d)) then
          \<lparr>allowed = False, forceExit = True, intervalSec = 30, reason = lit ''device blocked''\<rparr>
        else
          \<lparr>allowed = False, forceExit = True, intervalSec = 30, reason = lit ''not allowed''\<rparr>))"
  using assms by (simp add: check2_def split_beta Let_def)

lemma check2_keeps_lists:
  "allow (store2 env (snd (check2 env d q now))) = allow (store2 env d)
   \<and> block (store2 env (snd (check2 env d q now))) = block (store2 env d)"
proof (cases "trim (or_string q []) = []")
  case True
  then show ?thesis by (simp add: check2_def)
next
  case False
  then show ?thesis
    by (simp add: check2_store [OF refl False] Let_def)
qed



lemma store2_fresh:
  "fresh d \<Longrightarrow> store2 env d = \<lparr>adminToken = DEFAULT_ADMIN_TOKEN env, allow = [], block = [],
     pending = [], lastSeen = Map.empty\<rparr>"
  by (auto simp: fresh_def loadServerData_def existsSync_def readFileSync_def JSON_parse_def
      Let_def split: stored.splits contents.splits)

lemma trim_last_not_space: "trim s \<noteq> [] \<Longrightarrow> \<not> is_space (last (trim s))"
  unfolding trim_def by (simp add: last_rev hd_dropWhile)

lemma trim_neq_padded: "trim s \<noteq> lit '' dev1 ''"
proof
  assume h: "trim s = lit '' dev1 ''"
  then have "trim s \<noteq> []" by (simp add: lit_def)
  then have "\<not> is_space (last (trim s))" by (rule trim_last_not_space)
  with h show False by (simp add: is_space_def lit_def)
qed

lemma boot_fresh:
  "fresh d \<Longrightarrow> state (boot env d) = \<lparr>adminToken = DEFAULT_ADMIN_TOKEN env, allow = [], block = []\<rparr>"
  by (auto simp: fresh_def boot_def loadData_def existsSync_def readFileSync_def JSON_parse_def
      writeFileSync_def Let_def split: stored.splits contents.splits)

lemma clearPending2_store:
  "store2 env (snd (clearPending2 env d)) =
     (if persists d then (store2 env d)\<lparr>pending := []\<rparr> else store2 env d)"
  by (simp add: clearPending2_def split_beta Let_def store2_after_save)

lemma allow1_post:
  assumes "trim r \<noteq> []"
  shows "fst (allow1 srv (Obj (Some r))) =
           sendJson 200 (Allow_list (allow (state (snd (allow1 srv (Obj (Some r)))))))
       \<and> trim r \<in> set (allow (state (snd (allow1 srv (Obj (Some r))))))
       \<and> trim r \<notin> set (block (state (snd (allow1 srv (Obj (Some r))))))"
  using assms by (simp add: allow1_def readBody_def Let_def)

lemma allow1_twice:
  "allow (state (snd (allow1 (snd (allow1 srv b)) b))) = allow (state (snd (allow1 srv b)))"
  by (simp add: allow1_def Let_def)

lemma block1_post:
  assumes "trim r \<noteq> []"
  shows "fst (block1 srv (Obj (Some r))) =
           sendJson 200 (Block_list (block (state (snd (block1 srv (Obj (Some r)))))))
       \<and> trim r \<in> set (block (state (snd (block1 srv (Obj (Some r))))))
       \<and> trim r \<notin> set (allow (state (snd (block1 srv (Obj (Some r))))))"
  using assms by (simp add: block1_def readBody_def Let_def)

lemma block1_twice:
  "block (state (snd (block1 (snd (block1 srv b)) b))) = block (state (snd (block1 srv b)))"
  by (simp add: block1_def Let_def)

lemma block2_store:
  assumes "r \<noteq> []" "persists d"
  shows "store2 env (snd (block2 env d (Obj (Some r)))) =
     (let s0 = store2 env d;
          s2 = s0\<lparr>pending := filter (\<lambda>i. i \<noteq> r) (pending s0), allow := filter (\<lambda>i. i \<noteq> r) (allow s0)\<rparr>
      in if r \<notin> set (block s2) then s2\<lparr>block := block s2 @ [r]\<rparr> else s2)"
  using assms by (simp add: block2_def split_beta Let_def store2_after_save)

lemma block2_post:
  assumes "r \<noteq> []" "persists d"
  shows "fst (block2 env d (Obj (Some r))) =
           sendJson 200 (Block_list (block (store2 env (snd (block2 env d (Obj (Some r)))))))
       \<and> r \<in> set (block (store2 env (snd (block2 env d (Obj (Some r))))))
       \<and> r \<notin> set (allow (store2 env (snd (block2 env d (Obj (Some r))))))
       \<and> r \<notin> set (pending (store2 env (snd (block2 env d (Obj (Some r))))))"
  using assms by (simp add: block2_def split_beta Let_def store2_after_save)

lemma block2_twice:
   assumes "r \<noteq> []" "persists d"
  shows "block (store2 env (snd (block2 env (snd (block2 env d (Obj (Some r)))) (Obj (Some r))))) =
         block (store2 env (snd (block2 env d (Obj (Some r)))))"
proof -
  have w: "persists (snd (block2 env d (Obj (Some r))))"
    using assms by (simp add: block2_def split_beta Let_def persists_save2 persists_load2)
  show ?thesis
    by (simp add: block2_store [OF assms(1) w] block2_store [OF assms] Let_def)
qed


lemma check1_reply:
  assumes "trim (or_string q []) = k" "k \<noteq> []"
  shows "fst (check1 srv q) =
     sendJson 200 (Decision
       (if k \<in> set (block (state srv)) then
          \<lparr>allowed = False, forceExit = True, intervalSec = 30, reason = lit ''blocked''\<rparr>
        else if k \<in> set (allow (state srv)) then
          \<lparr>allowed = True, forceExit = False, intervalSec = 30, reason = []\<rparr>
        else
          \<lparr>allowed = False, forceExit = True, intervalSec = 30, reason = lit ''not allowed''\<rparr>))"
  using assms by (simp add: check1_def Let_def)

lemma check1_state: "snd (check1 srv q) = srv"
  by (simp add: check1_def Let_def split_beta)

lemma check1_reason:
  "\<exists>c dec. fst (check1 srv q) = sendJson c (Decision dec)
     \<and> reason dec \<in> {(lit ''missing deviceId''), lit ''blocked'', lit ''not allowed'', []}"
  by (simp add: check1_def Let_def sendJson_def)

lemma check2_reason:
  "\<exists>c dec. fst (check2 env d q now) = sendJson c (Decision dec)
     \<and> reason dec \<in> {(lit ''missing deviceId''), lit ''device blocked'', lit ''not allowed'', []}"
  by (simp add: check2_def Let_def split_beta sendJson_def)

lemma trim_dev1: "trim (lit ''dev1'') = lit ''dev1''"
  by (simp add: trim_def is_space_def lit_def)

lemma trim_padded_dev1: "trim (lit '' dev1 '') = lit ''dev1''"
  by (simp add: trim_def is_space_def lit_def)

lemma blocked1_dev1:
  "state (snd (block1 (boot None \<lparr>stored = Missing, writable = True\<rparr>) (Obj (Some (lit ''dev1''))))) =
     \<lparr>adminToken = DEFAULT_ADMIN_TOKEN None, allow = [], block = [lit ''dev1'']\<rparr>"
  by (simp add: block1_def readBody_def Let_def trim_dev1 boot_fresh fresh_def)

lemma blocked2_dev1:
  "store2 None (snd (block2 None \<lparr>stored = Missing, writable = True\<rparr> (Obj (Some (lit ''dev1''))))) =
     \<lparr>adminToken = DEFAULT_ADMIN_TOKEN None, allow = [], block = [lit ''dev1''], pending = [],
      lastSeen = Map.empty\<rparr>"
  by (simp add: block2_store store2_fresh fresh_def persists_def Let_def)



lemma check2_lastSeen:
  assumes "trim (or_string q []) = k" "k \<noteq> []" "k \<noteq> lit ''__proto__''" "persists d"
  shows "lastSeen (store2 env (snd (check2 env d q now))) k = Some now"
  using assms by (simp add: check2_store [OF assms(1,2)] Let_def obj_set_def)

lemma list2_reply:
  "fst (list2 env d) = sendJson 200 (Listing2 (allow (store2 env d)) (block (store2 env d))
     (pending (store2 env d)) (lastSeen (store2 env d)))"
  by (simp add: list2_def split_beta)

lemma allowed2_dev1:
  "store2 None (snd (allow2 None \<lparr>stored = Missing, writable = True\<rparr> (Obj (Some (lit ''dev1''))))) =
     \<lparr>adminToken = DEFAULT_ADMIN_TOKEN None, allow = [lit ''dev1''], block = [], pending = [],
      lastSeen = Map.empty\<rparr>"
  by (simp add: allow2_store store2_fresh fresh_def persists_def Let_def)

lemma loadData_writable: "fst (loadData env (d\<lparr>writable := w\<rparr>)) = fst (loadData env d)"
  by (auto simp: loadData_def existsSync_def readFileSync_def JSON_parse_def writeFileSync_def
      Let_def split: stored.splits contents.splits)

lemma loadData_twice: "fst (loadData env (snd (loadData env d))) = fst (loadData env d)"
  by (auto simp: loadData_def existsSync_def readFileSync_def JSON_parse_def writeFileSync_def
      stringify_def Let_def DEFAULT_ADMIN_TOKEN_nonempty split: stored.splits contents.splits)

lemma loadData_saveData:
  "fst (loadData env (saveData s d)) =
     (if persists d then s\<lparr>adminToken := or_string (Some (adminToken s)) (DEFAULT_ADMIN_TOKEN env)\<rparr>
      else fst (loadData env d))"
proof (cases "persists d")
  case True
  then have "saveData s d = d\<lparr>stored := Holds (Json (stringify s))\<rparr>"
    by (auto simp: persists_def saveData_def writeFileSync_def split: stored.splits)
  with True show ?thesis
    by (simp add: loadData_def existsSync_def readFileSync_def JSON_parse_def stringify_def)
next
  case False
  then have "saveData s d = d"
    by (auto simp: persists_def saveData_def writeFileSync_def split: stored.splits)
  with False show ?thesis by simp
qed

lemma loadData_fresh:
  "fresh d \<Longrightarrow> fst (loadData env d) = \<lparr>adminToken = DEFAULT_ADMIN_TOKEN env, allow = [], block = []\<rparr>"
  by (auto simp: fresh_def loadData_def existsSync_def readFileSync_def JSON_parse_def
      writeFileSync_def Let_def split: stored.splits contents.splits)

lemma state_boot: "state (boot env d) = fst (loadData env d)"
  by (simp add: boot_def split_beta)

lemma disk_boot: "disk (boot env d) = snd (loadData env d)"
  by (simp add: boot_def split_beta)

lemma handle1_inv:
  assumes "I1 (state srv)" "I1 (fst (loadData env (disk srv)))"
  shows "I1 (state (snd (handle1 srv bearer req)))
       \<and> I1 (fst (loadData env (disk (snd (handle1 srv bearer req)))))"
  using assms
  by (cases req)
    (auto simp: handle1_def check1_def list1_def allow1_def block1_def unallow1_def unblock1_def
      Let_def split_beta loadData_saveData)

lemma reachable1_inv:
  "reachable1 env srv \<Longrightarrow> I1 (state srv) \<and> I1 (fst (loadData env (disk srv)))"
proof (induction rule: reachable1.induct)
  case (start1 d)
  then show ?case
    by (simp add: state_boot disk_boot loadData_twice loadData_fresh)
next
  case (request1 srv bearer req)
  then show ?case
    using handle1_inv by blast
next
  case (restart1 srv)
  then show ?case
    by (simp add: state_boot disk_boot loadData_twice)
next
  case (mode1 srv w)
  then show ?case
    by (simp add: loadData_writable)
qed

lemma store2_writable: "store2 env (d\<lparr>writable := w\<rparr>) = store2 env d"
  by (auto simp: loadServerData_def existsSync_def readFileSync_def JSON_parse_def
      writeFileSync_def Let_def split: stored.splits contents.splits)

lemma store2_authenticateRequest:
  "store2 env (snd (authenticateRequest env d bearer)) = store2 env d"
  by (cases bearer) (simp_all add: authenticateRequest_def split_beta load2_twice)

lemma allow2_inv: "I1 (store2 env d) \<Longrightarrow> I1 (store2 env (snd (allow2 env d b)))"
  by (cases b) (auto simp: allow2_def split_beta Let_def store2_after_save)

lemma block2_inv: "I1 (store2 env d) \<Longrightarrow> I1 (store2 env (snd (block2 env d b)))"
  by (cases b) (auto simp: block2_def split_beta Let_def store2_after_save)

lemma unallow2_inv: "I1 (store2 env d) \<Longrightarrow> I1 (store2 env (snd (unallow2 env d q)))"
  by (auto simp: unallow2_def split_beta Let_def store2_after_save)

lemma unblock2_inv: "I1 (store2 env d) \<Longrightarrow> I1 (store2 env (snd (unblock2 env d q)))"
  by (auto simp: unblock2_def split_beta Let_def store2_after_save)

lemma clearPending2_inv: "I1 (store2 env d) \<Longrightarrow> I1 (store2 env (snd (clearPending2 env d)))"
  by (simp add: clearPending2_store)

lemma list2_inv: "store2 env (snd (list2 env d)) = store2 env d"
  by (simp add: list2_def split_beta load2_twice)

lemma check2_inv: "I1 (store2 env d) \<Longrightarrow> I1 (store2 env (snd (check2 env d q t)))"
  using check2_keeps_lists [of env d q t] by simp

lemma handle2_inv:
  assumes "I1 (store2 env d)"
  shows "I1 (store2 env (snd (handle2 env d bearer req)))"
proof -
  have a: "I1 (store2 env (snd (authenticateRequest env d bearer)))"
    using assms by (simp add: store2_authenticateRequest)
  show ?thesis
    using assms a
    by (cases req)
      (simp_all add: handle2_def split_beta Let_def check2_inv allow2_inv block2_inv
        unallow2_inv unblock2_inv clearPending2_inv list2_inv)
qed

lemma reachable2_inv: "reachable2 env d \<Longrightarrow> I1 (store2 env d)"
proof (induction rule: reachable2.induct)
  case (start2 d)
  then show ?case by (simp add: store2_fresh)
next
  case (request2 d bearer req)
  from request2.IH show ?case by (rule handle2_inv)
next
  case (mode2 d w)
  then show ?case by (simp add: store2_writable)
qed


subsection \<open>A request without a device identifier\<close>

text \<open>
  C6. When the device identifier is empty after trimming (empty, or white space only),
  \<^verbatim>\<open>/check\<close> answers not allowed, force exit, reason "missing deviceId", and nothing
  of the store changes: in the first version neither \<^verbatim>\<open>state\<close> nor the file, in the
  second version the file is not even read, so neither the pending list nor
  \<^verbatim>\<open>lastSeen\<close> is touched.
\<close>

theorem check_missing_deviceId:
  assumes "trim d = []"
  shows "check1 srv (Some d) =
           (sendJson 200 (Decision \<lparr>allowed = False, forceExit = True, intervalSec = 30,
              reason = lit ''missing deviceId''\<rparr>), srv)
       \<and> check2 env f (Some d) now =
           (sendJson 400 (Decision \<lparr>allowed = False, forceExit = True, intervalSec = 30,
              reason = lit ''missing deviceId''\<rparr>), f)"
  using assms by (simp add: check1_def check2_def)

text \<open>The witness is an identifier of a space, a no-break space (U+00A0), an ideographic
  space (U+3000) and a tab.\<close>

theorem check_missing_deviceId_witness:
  "trim [0x0020, 0x00A0, 0x3000, 0x0009] = []
   \<and> check1 (boot None \<lparr>stored = Missing, writable = True\<rparr>)
        (Some [0x0020, 0x00A0, 0x3000, 0x0009]) =
        (sendJson 200 (Decision \<lparr>allowed = False, forceExit = True, intervalSec = 30,
           reason = lit ''missing deviceId''\<rparr>), boot None \<lparr>stored = Missing, writable = True\<rparr>)
   \<and> check2 None \<lparr>stored = Missing, writable = True\<rparr> (Some [0x0020, 0x00A0, 0x3000, 0x0009])
        (lit ''2024-01-01T00:00:00.000Z'') =
        (sendJson 400 (Decision \<lparr>allowed = False, forceExit = True, intervalSec = 30,
           reason = lit ''missing deviceId''\<rparr>), \<lparr>stored = Missing, writable = True\<rparr>)"
proof -
  have h: "trim [0x0020, 0x00A0, 0x3000, 0x0009] = []"
    by (simp add: trim_def is_space_def)
  show ?thesis
    using h check_missing_deviceId [OF h] by simp
qed


subsection \<open>Loading a bad data file\<close>

text \<open>
  C8. Loading never aborts on bad persisted state. When the data file is missing, or
  cannot be read, or holds a text that is not JSON (the empty text included), both
  \<^verbatim>\<open>loadData\<close> and \<^verbatim>\<open>loadServerData\<close> return the seed: the default admin token (the
  environment's, when it supplies one) and empty lists, in the second version also an
  empty \<^verbatim>\<open>lastSeen\<close>. This holds whether or not the seed can be written back.
\<close>

theorem load_bad_file_gives_seed:
  "fst (loadData env \<lparr>stored = Missing, writable = w\<rparr>) =
     \<lparr>adminToken = DEFAULT_ADMIN_TOKEN env, allow = [], block = []\<rparr>
   \<and> fst (loadData env \<lparr>stored = Unreadable, writable = w\<rparr>) =
     \<lparr>adminToken = DEFAULT_ADMIN_TOKEN env, allow = [], block = []\<rparr>
   \<and> fst (loadData env \<lparr>stored = Holds Garbage, writable = w\<rparr>) =
     \<lparr>adminToken = DEFAULT_ADMIN_TOKEN env, allow = [], block = []\<rparr>
   \<and> fst (loadData env \<lparr>stored = Holds Blank, writable = w\<rparr>) =
     \<lparr>adminToken = DEFAULT_ADMIN_TOKEN env, allow = [], block = []\<rparr>
   \<and> fst (loadServerData env \<lparr>stored = Missing, writable = w\<rparr>) =
     \<lparr>adminToken = DEFAULT_ADMIN_TOKEN env, allow = [], block = [], pending = [],
      lastSeen = Map.empty\<rparr>
   \<and> fst (loadServerData env \<lparr>stored = Unreadable, writable = w\<rparr>) =
     \<lparr>adminToken = DEFAULT_ADMIN_TOKEN env, allow = [], block = [], pending = [],
      lastSeen = Map.empty\<rparr>
   \<and> fst (loadServerData env \<lparr>stored = Holds Garbage, writable = w\<rparr>) =
     \<lparr>adminToken = DEFAULT_ADMIN_TOKEN env, allow = [], block = [], pending = [],
      lastSeen = Map.empty\<rparr>
   \<and> fst (loadServerData env \<lparr>stored = Holds Blank, writable = w\<rparr>) =
     \<lparr>adminToken = DEFAULT_ADMIN_TOKEN env, allow = [], block = [], pending = [],
      lastSeen = Map.empty\<rparr>"
  by (simp add: loadData_def loadServerData_def existsSync_def readFileSync_def
      JSON_parse_def writeFileSync_def Let_def)


subsection \<open>Clearing the pending list\<close>

text \<open>
  C9, as the code has it. \<^verbatim>\<open>DELETE /pending\<close> (only the second version has it) replies
  with an empty pending list and leaves the allow list, the block list and
  \<^verbatim>\<open>lastSeen\<close> exactly as they were, for every content of the data file. The store
  is what the next load returns. The pending list is empty afterwards when the
  handler's write to the data file goes through and can be read back; when it does
  not (\<^verbatim>\<open>saveServerData\<close> swallows the failure), the pending list stays as it was.
\<close>

theorem clearPending_frame:
  "fst (clearPending2 env d) = sendJson 200 (Pending_list [])
   \<and> (persists d \<longrightarrow> pending (store2 env (snd (clearPending2 env d))) = [])
   \<and> (\<not> persists d \<longrightarrow>
        pending (store2 env (snd (clearPending2 env d))) = pending (store2 env d))
   \<and> allow (store2 env (snd (clearPending2 env d))) = allow (store2 env d)
   \<and> block (store2 env (snd (clearPending2 env d))) = block (store2 env d)
   \<and> lastSeen (store2 env (snd (clearPending2 env d))) = lastSeen (store2 env d)"
  by (simp add: clearPending2_store) (simp add: clearPending2_def split_beta)

theorem clearPending_frame_witness:
  "persists \<lparr>stored = Holds (Json \<lparr>p_adminToken = Some (lit ''t''), p_allow = Some [lit ''a''],
       p_block = Some [lit ''b''], p_pending = Some [lit ''p''],
       p_lastSeen = Some [lit ''p'' \<mapsto> lit ''2024-01-01T00:00:00.000Z'']\<rparr>), writable = True\<rparr>
   \<and> pending (store2 None \<lparr>stored = Holds (Json \<lparr>p_adminToken = Some (lit ''t''),
       p_allow = Some [lit ''a''], p_block = Some [lit ''b''], p_pending = Some [lit ''p''],
       p_lastSeen = Some [lit ''p'' \<mapsto> lit ''2024-01-01T00:00:00.000Z'']\<rparr>), writable = True\<rparr>)
       = [lit ''p'']
   \<and> pending (store2 None (snd (clearPending2 None \<lparr>stored = Holds (Json
       \<lparr>p_adminToken = Some (lit ''t''),
       p_allow = Some [lit ''a''], p_block = Some [lit ''b''], p_pending = Some [lit ''p''],
       p_lastSeen = Some [lit ''p'' \<mapsto> lit ''2024-01-01T00:00:00.000Z'']\<rparr>), writable = True\<rparr>))) = []
   \<and> allow (store2 None (snd (clearPending2 None \<lparr>stored = Holds (Json
       \<lparr>p_adminToken = Some (lit ''t''),
       p_allow = Some [lit ''a''], p_block = Some [lit ''b''], p_pending = Some [lit ''p''],
       p_lastSeen = Some [lit ''p'' \<mapsto> lit ''2024-01-01T00:00:00.000Z'']\<rparr>), writable = True\<rparr>)))
       = [lit ''a'']
   \<and> block (store2 None (snd (clearPending2 None \<lparr>stored = Holds (Json
       \<lparr>p_adminToken = Some (lit ''t''),
       p_allow = Some [lit ''a''], p_block = Some [lit ''b''], p_pending = Some [lit ''p''],
       p_lastSeen = Some [lit ''p'' \<mapsto> lit ''2024-01-01T00:00:00.000Z'']\<rparr>), writable = True\<rparr>)))
       = [lit ''b'']
   \<and> lastSeen (store2 None (snd (clearPending2 None \<lparr>stored = Holds (Json
       \<lparr>p_adminToken = Some (lit ''t''),
       p_allow = Some [lit ''a''], p_block = Some [lit ''b''], p_pending = Some [lit ''p''],
       p_lastSeen = Some [lit ''p'' \<mapsto> lit ''2024-01-01T00:00:00.000Z'']\<rparr>), writable = True\<rparr>)))
       (lit ''p'') = Some (lit ''2024-01-01T00:00:00.000Z'')"
proof -
  let ?d = "\<lparr>stored = Holds (Json \<lparr>p_adminToken = Some (lit ''t''), p_allow = Some [lit ''a''],
       p_block = Some [lit ''b''], p_pending = Some [lit ''p''],
       p_lastSeen = Some [lit ''p'' \<mapsto> lit ''2024-01-01T00:00:00.000Z'']\<rparr>), writable = True\<rparr>"
  have w: "persists ?d" by (simp add: persists_def)
  have s: "store2 None ?d = \<lparr>adminToken = lit ''t'', allow = [lit ''a''], block = [lit ''b''],
      pending = [lit ''p''], lastSeen = [lit ''p'' \<mapsto> lit ''2024-01-01T00:00:00.000Z'']\<rparr>"
    by (simp add: loadServerData_def existsSync_def readFileSync_def JSON_parse_def)
  show ?thesis
    using w clearPending_frame [of None ?d] by (simp add: s)
qed

text \<open>
  C9 as stated fails when the data file cannot be written: on a file that holds the
  pending list \<^verbatim>\<open>["p"]\<close>, the reply shows an empty pending list, and the next load
  still returns \<^verbatim>\<open>["p"]\<close>.
\<close>

theorem clearPending_unwritable_counterexample:
  "fst (clearPending2 None \<lparr>stored = Holds (Json \<lparr>p_adminToken = Some (lit ''t''),
       p_allow = Some [lit ''a''], p_block = Some [lit ''b''], p_pending = Some [lit ''p''],
       p_lastSeen = Some Map.empty\<rparr>), writable = False\<rparr>) = sendJson 200 (Pending_list [])
   \<and> pending (store2 None (snd (clearPending2 None \<lparr>stored = Holds (Json
       \<lparr>p_adminToken = Some (lit ''t''),
       p_allow = Some [lit ''a''], p_block = Some [lit ''b''], p_pending = Some [lit ''p''],
       p_lastSeen = Some Map.empty\<rparr>), writable = False\<rparr>))) = [lit ''p'']"
proof -
  let ?d = "\<lparr>stored = Holds (Json \<lparr>p_adminToken = Some (lit ''t''), p_allow = Some [lit ''a''],
       p_block = Some [lit ''b''], p_pending = Some [lit ''p''],
       p_lastSeen = Some Map.empty\<rparr>), writable = False\<rparr>"
  have w: "\<not> persists ?d" by (simp add: persists_def)
  have s: "pending (store2 None ?d) = [lit ''p'']"
    by (simp add: loadServerData_def existsSync_def readFileSync_def JSON_parse_def)
  show ?thesis
    using w by (simp add: clearPending2_store s) (simp add: clearPending2_def split_beta)
qed


subsection \<open>An identifier stored with its white space\<close>

text \<open>
  C10. In the second version \<^verbatim>\<open>POST /allow\<close> stores the identifier as sent, while
  \<^verbatim>\<open>/check\<close> trims what it is sent and looks up the trimmed form. For the identifier
  \<^verbatim>\<open>" dev1 "\<close> on a store with no prior state: allow succeeds and the allow list is
  exactly this untrimmed string; a check of the same raw string looks up \<^verbatim>\<open>"dev1"\<close>
  and answers "not allowed"; and whatever string a check is sent, the answer is
  "missing deviceId" or "not allowed", never allowed, so no check reaches the stored
  entry. That the check does look up the trimmed form shows once \<^verbatim>\<open>"dev1"\<close> is allowed
  as well: the same check of \<^verbatim>\<open>" dev1 "\<close> is then allowed.
\<close>

theorem untrimmed_allow_unreachable:
  fixes env :: "jsstring option"
  defines "a \<equiv> snd (allow2 env \<lparr>stored = Missing, writable = True\<rparr> (Obj (Some (lit '' dev1 ''))))"
  defines "b \<equiv> snd (allow2 env a (Obj (Some (lit ''dev1''))))"
  shows "fst (allow2 env \<lparr>stored = Missing, writable = True\<rparr> (Obj (Some (lit '' dev1 '')))) =
           sendJson 200 (Allow_list [lit '' dev1 ''])
       \<and> allow (store2 env a) = [lit '' dev1 '']
       \<and> trim (lit '' dev1 '') = lit ''dev1''
       \<and> (\<forall>s. trim s \<noteq> lit '' dev1 '')
       \<and> fst (check2 env a (Some (lit '' dev1 '')) now) =
           sendJson 200 (Decision \<lparr>allowed = False, forceExit = True, intervalSec = 30,
             reason = lit ''not allowed''\<rparr>)
       \<and> (\<forall>q t. fst (check2 env a q t) =
             (if trim (or_string q []) = [] then
                sendJson 400 (Decision \<lparr>allowed = False, forceExit = True, intervalSec = 30,
                  reason = lit ''missing deviceId''\<rparr>)
              else
                sendJson 200 (Decision \<lparr>allowed = False, forceExit = True, intervalSec = 30,
                  reason = lit ''not allowed''\<rparr>)))
       \<and> allow (store2 env b) = [lit '' dev1 '', lit ''dev1'']
       \<and> fst (check2 env b (Some (lit '' dev1 '')) now) =
           sendJson 200 (Decision \<lparr>allowed = True, forceExit = False, intervalSec = 30,
             reason = []\<rparr>)"
proof -
  have pf: "persists \<lparr>stored = Missing, writable = True\<rparr>"
    by (simp add: persists_def)
  have pa: "persists a"
    unfolding a_def by (simp add: allow2_def split_beta Let_def persists_save2 persists_load2 pf)
  have ne: "lit '' dev1 '' \<noteq> lit ''dev1''"
    by (simp add: lit_def)
  have st: "store2 env a = \<lparr>adminToken = DEFAULT_ADMIN_TOKEN env, allow = [lit '' dev1 ''],
      block = [], pending = [], lastSeen = Map.empty\<rparr>"
    unfolding a_def
    by (simp add: allow2_store pf store2_fresh fresh_def Let_def)
  have sb: "store2 env b = \<lparr>adminToken = DEFAULT_ADMIN_TOKEN env,
      allow = [lit '' dev1 '', lit ''dev1''], block = [], pending = [], lastSeen = Map.empty\<rparr>"
    unfolding b_def using ne by (simp add: allow2_store pa st Let_def)
  have tr: "trim (lit '' dev1 '') = lit ''dev1''"
    by (rule trim_padded_dev1)
  have r: "fst (allow2 env \<lparr>stored = Missing, writable = True\<rparr> (Obj (Some (lit '' dev1 '')))) =
           sendJson 200 (Allow_list [lit '' dev1 ''])"
    using allow2_post [of "lit '' dev1 ''" "\<lparr>stored = Missing, writable = True\<rparr>" env] st pf
    by (simp add: a_def)
  have c: "fst (check2 env a (Some (lit '' dev1 '')) now) =
           sendJson 200 (Decision \<lparr>allowed = False, forceExit = True, intervalSec = 30,
             reason = lit ''not allowed''\<rparr>)"
    using ne by (simp add: check2_reply [where k = "lit ''dev1''"] tr st)
  have c': "fst (check2 env b (Some (lit '' dev1 '')) now) =
           sendJson 200 (Decision \<lparr>allowed = True, forceExit = False, intervalSec = 30,
             reason = []\<rparr>)"
    by (simp add: check2_reply [where k = "lit ''dev1''"] tr sb)
  have u: "fst (check2 env a q t) =
             (if trim (or_string q []) = [] then
                sendJson 400 (Decision \<lparr>allowed = False, forceExit = True, intervalSec = 30,
                  reason = lit ''missing deviceId''\<rparr>)
              else
                sendJson 200 (Decision \<lparr>allowed = False, forceExit = True, intervalSec = 30,
                  reason = lit ''not allowed''\<rparr>))" for q t
  proof (cases "trim (or_string q []) = []")
    case True
    then show ?thesis by (simp add: check2_def)
  next
    case False
    then show ?thesis
      by (simp add: check2_reply [OF refl False] st trim_neq_padded)
  qed
  from st sb tr r c c' u trim_neq_padded show ?thesis by simp
qed


subsection \<open>After allow and block\<close>

text \<open>
  C3, as the code has it. The first version trims the identifier it is sent and stores
  the trimmed form; the second stores the identifier as sent, in the data file. So for
  an identifier \<open>r\<close>: in the first version, when \<open>trim r\<close> is not empty,
  \<^verbatim>\<open>POST /allow\<close> succeeds and afterwards \<open>trim r\<close> is in the allow list and not in the
  block list (there is no pending list), and a second allow of \<open>r\<close> leaves the allow
  list unchanged. In the second version, when \<open>r\<close> is not empty, the reply is the
  allow list with \<open>r\<close> in it; when the write to the data file goes through and can be
  read back, afterwards \<open>r\<close> itself is in the allow list, not in the block list and
  not in the pending list, and a second allow of \<open>r\<close> leaves the allow list unchanged;
  when it does not, the store is as it was before. The same holds for \<^verbatim>\<open>POST /block\<close>
  with the two lists exchanged.
\<close>

theorem allow_block_postcondition:
  fixes srv :: server and d :: "parsed2 fs" and r :: jsstring and env :: "jsstring option"
  defines "a1 \<equiv> snd (allow1 srv (Obj (Some r)))"
      and "b1 \<equiv> snd (block1 srv (Obj (Some r)))"
      and "a2 \<equiv> snd (allow2 env d (Obj (Some r)))"
      and "b2 \<equiv> snd (block2 env d (Obj (Some r)))"
  shows "(trim r \<noteq> [] \<longrightarrow>
            fst (allow1 srv (Obj (Some r))) = sendJson 200 (Allow_list (allow (state a1)))
          \<and> trim r \<in> set (allow (state a1)) \<and> trim r \<notin> set (block (state a1))
          \<and> allow (state (snd (allow1 a1 (Obj (Some r))))) = allow (state a1)
          \<and> fst (block1 srv (Obj (Some r))) = sendJson 200 (Block_list (block (state b1)))
          \<and> trim r \<in> set (block (state b1)) \<and> trim r \<notin> set (allow (state b1))
          \<and> block (state (snd (block1 b1 (Obj (Some r))))) = block (state b1))
       \<and> (r \<noteq> [] \<and> persists d \<longrightarrow>
            fst (allow2 env d (Obj (Some r))) = sendJson 200 (Allow_list (allow (store2 env a2)))
          \<and> r \<in> set (allow (store2 env a2)) \<and> r \<notin> set (block (store2 env a2))
          \<and> r \<notin> set (pending (store2 env a2))
          \<and> allow (store2 env (snd (allow2 env a2 (Obj (Some r))))) = allow (store2 env a2)
          \<and> fst (block2 env d (Obj (Some r))) = sendJson 200 (Block_list (block (store2 env b2)))
          \<and> r \<in> set (block (store2 env b2)) \<and> r \<notin> set (allow (store2 env b2))
          \<and> r \<notin> set (pending (store2 env b2))
          \<and> block (store2 env (snd (block2 env b2 (Obj (Some r))))) = block (store2 env b2))
       \<and> (r \<noteq> [] \<and> \<not> persists d \<longrightarrow>
            fst (allow2 env d (Obj (Some r))) =
              sendJson 200 (Allow_list (if r \<in> set (allow (store2 env d)) then allow (store2 env d)
                else allow (store2 env d) @ [r]))
          \<and> store2 env a2 = store2 env d
          \<and> fst (block2 env d (Obj (Some r))) =
              sendJson 200 (Block_list (if r \<in> set (block (store2 env d)) then block (store2 env d)
                else block (store2 env d) @ [r]))
          \<and> store2 env b2 = store2 env d)"
proof (intro conjI impI)
  assume t: "trim r \<noteq> []"
  show "fst (allow1 srv (Obj (Some r))) = sendJson 200 (Allow_list (allow (state a1)))"
    and "trim r \<in> set (allow (state a1))" and "trim r \<notin> set (block (state a1))"
    using allow1_post [OF t, of srv] by (simp_all add: a1_def)
  show "allow (state (snd (allow1 a1 (Obj (Some r))))) = allow (state a1)"
    unfolding a1_def by (rule allow1_twice)
  show "fst (block1 srv (Obj (Some r))) = sendJson 200 (Block_list (block (state b1)))"
    and "trim r \<in> set (block (state b1))" and "trim r \<notin> set (allow (state b1))"
    using block1_post [OF t, of srv] by (simp_all add: b1_def)
  show "block (state (snd (block1 b1 (Obj (Some r))))) = block (state b1)"
    unfolding b1_def by (rule block1_twice)
next
  assume "r \<noteq> [] \<and> persists d"
  then have h: "r \<noteq> []" "persists d" by simp_all
  show "fst (allow2 env d (Obj (Some r))) = sendJson 200 (Allow_list (allow (store2 env a2)))"
    and "r \<in> set (allow (store2 env a2))" and "r \<notin> set (block (store2 env a2))"
    and "r \<notin> set (pending (store2 env a2))"
    using allow2_post [OF h, of env] by (simp_all add: a2_def)
  show "allow (store2 env (snd (allow2 env a2 (Obj (Some r))))) = allow (store2 env a2)"
    unfolding a2_def by (rule allow2_twice [OF h])
  show "fst (block2 env d (Obj (Some r))) = sendJson 200 (Block_list (block (store2 env b2)))"
    and "r \<in> set (block (store2 env b2))" and "r \<notin> set (allow (store2 env b2))"
    and "r \<notin> set (pending (store2 env b2))"
    using block2_post [OF h, of env] by (simp_all add: b2_def)
  show "block (store2 env (snd (block2 env b2 (Obj (Some r))))) = block (store2 env b2)"
    unfolding b2_def by (rule block2_twice [OF h])
next
  assume "r \<noteq> [] \<and> \<not> persists d"
  then have h: "r \<noteq> []" "\<not> persists d" by simp_all
  show "store2 env a2 = store2 env d"
    using h by (simp add: a2_def allow2_def split_beta Let_def load2_not_persists
        save2_not_persists)
  show "store2 env b2 = store2 env d"
    using h by (simp add: b2_def block2_def split_beta Let_def load2_not_persists
        save2_not_persists)
  show "fst (allow2 env d (Obj (Some r))) =
      sendJson 200 (Allow_list (if r \<in> set (allow (store2 env d)) then allow (store2 env d)
                else allow (store2 env d) @ [r]))"
    using h by (simp add: allow2_def split_beta Let_def)
  show "fst (block2 env d (Obj (Some r))) =
      sendJson 200 (Block_list (if r \<in> set (block (store2 env d)) then block (store2 env d)
                else block (store2 env d) @ [r]))"
    using h by (simp add: block2_def split_beta Let_def)
qed


theorem allow_block_postcondition_witness:
  "trim (lit '' dev1 '') \<noteq> []
   \<and> (lit '' dev1 '' \<noteq> [] \<and> persists \<lparr>stored = Missing, writable = True\<rparr>)
   \<and> (lit '' dev1 '' \<noteq> [] \<and> \<not> persists \<lparr>stored = Missing, writable = False\<rparr>)
   \<and> trim (lit '' dev1 '') \<in> set (allow (state (snd (allow1
         (boot None \<lparr>stored = Missing, writable = True\<rparr>) (Obj (Some (lit '' dev1 '')))))))
   \<and> trim (lit '' dev1 '') \<in> set (block (state (snd (block1
         (boot None \<lparr>stored = Missing, writable = True\<rparr>) (Obj (Some (lit '' dev1 '')))))))
   \<and> lit '' dev1 '' \<in> set (allow (store2 None (snd (allow2 None
         \<lparr>stored = Missing, writable = True\<rparr> (Obj (Some (lit '' dev1 '')))))))
   \<and> lit '' dev1 '' \<in> set (block (store2 None (snd (block2 None
         \<lparr>stored = Missing, writable = True\<rparr> (Obj (Some (lit '' dev1 '')))))))
   \<and> store2 None (snd (allow2 None \<lparr>stored = Missing, writable = False\<rparr>
         (Obj (Some (lit '' dev1 ''))))) = store2 None \<lparr>stored = Missing, writable = False\<rparr>"
proof -
  have h1: "trim (lit '' dev1 '') \<noteq> []"
    by (simp add: trim_padded_dev1)
  have h2: "lit '' dev1 '' \<noteq> [] \<and> persists \<lparr>stored = Missing, writable = True\<rparr>"
    by (simp add: persists_def)
  have h3: "lit '' dev1 '' \<noteq> [] \<and> \<not> persists \<lparr>stored = Missing, writable = False\<rparr>"
    by (simp add: persists_def)
  show ?thesis
    using h1 h2 h3
      allow_block_postcondition [of "lit '' dev1 ''"
        "boot None \<lparr>stored = Missing, writable = True\<rparr>"
        "\<lparr>stored = Missing, writable = True\<rparr>" None]
      allow_block_postcondition [of "lit '' dev1 ''"
        "boot None \<lparr>stored = Missing, writable = True\<rparr>"
        "\<lparr>stored = Missing, writable = False\<rparr>" None]
    by (simp add: persists_def)
qed

text \<open>
  C3 as stated fails at two inputs. In the first version, allowing \<^verbatim>\<open>" dev1 "\<close>
  succeeds, and the allow list is then \<^verbatim>\<open>["dev1"]\<close>, of which \<^verbatim>\<open>" dev1 "\<close> is not a
  member. In the second version, on a data file that is missing and cannot be
  written, allowing \<^verbatim>\<open>"dev1"\<close> succeeds with the reply \<^verbatim>\<open>["dev1"]\<close>, and the allow
  list that the next load returns is empty.
\<close>

theorem allow_postcondition_counterexample:
  "fst (allow1 (boot None \<lparr>stored = Missing, writable = True\<rparr>) (Obj (Some (lit '' dev1 '')))) =
     sendJson 200 (Allow_list [lit ''dev1''])
   \<and> allow (state (snd (allow1 (boot None \<lparr>stored = Missing, writable = True\<rparr>)
        (Obj (Some (lit '' dev1 '')))))) = [lit ''dev1'']
   \<and> lit '' dev1 '' \<notin> set (allow (state (snd (allow1
        (boot None \<lparr>stored = Missing, writable = True\<rparr>) (Obj (Some (lit '' dev1 '')))))))
   \<and> fst (allow2 None \<lparr>stored = Missing, writable = False\<rparr> (Obj (Some (lit ''dev1'')))) =
     sendJson 200 (Allow_list [lit ''dev1''])
   \<and> allow (store2 None (snd (allow2 None \<lparr>stored = Missing, writable = False\<rparr>
        (Obj (Some (lit ''dev1'')))))) = []
   \<and> lit ''dev1'' \<notin> set (allow (store2 None (snd (allow2 None
        \<lparr>stored = Missing, writable = False\<rparr> (Obj (Some (lit ''dev1'')))))))"
proof -
  have b: "state (boot None \<lparr>stored = Missing, writable = True\<rparr>) =
      \<lparr>adminToken = DEFAULT_ADMIN_TOKEN None, allow = [], block = []\<rparr>"
    by (simp add: boot_fresh fresh_def)
  have ne: "lit '' dev1 '' \<noteq> lit ''dev1''"
    by (simp add: lit_def)
  have v1: "fst (allow1 (boot None \<lparr>stored = Missing, writable = True\<rparr>)
        (Obj (Some (lit '' dev1 '')))) = sendJson 200 (Allow_list [lit ''dev1''])
      \<and> allow (state (snd (allow1 (boot None \<lparr>stored = Missing, writable = True\<rparr>)
        (Obj (Some (lit '' dev1 '')))))) = [lit ''dev1'']"
    by (simp add: allow1_def readBody_def Let_def trim_padded_dev1 b)
  have f: "store2 None \<lparr>stored = Missing, writable = False\<rparr> =
      \<lparr>adminToken = DEFAULT_ADMIN_TOKEN None, allow = [], block = [], pending = [],
       lastSeen = Map.empty\<rparr>"
    by (simp add: store2_fresh fresh_def)
  have np: "\<not> persists \<lparr>stored = Missing, writable = False\<rparr>"
    by (simp add: persists_def)
  have v2: "fst (allow2 None \<lparr>stored = Missing, writable = False\<rparr> (Obj (Some (lit ''dev1'')))) =
        sendJson 200 (Allow_list [lit ''dev1''])"
    by (simp add: allow2_def split_beta Let_def f)
  have s2: "store2 None (snd (allow2 None \<lparr>stored = Missing, writable = False\<rparr>
        (Obj (Some (lit ''dev1''))))) = store2 None \<lparr>stored = Missing, writable = False\<rparr>"
    by (simp add: allow2_def split_beta Let_def load2_not_persists [OF np]
        save2_not_persists [OF np])
  from v1 v2 ne show ?thesis
    by (simp add: s2 f)
qed


subsection \<open>The decision of a check\<close>

text \<open>
  C2, as the code has it. Let \<open>trim r\<close> be the identifier a check is sent, trimmed, and
  not empty. The first version answers not allowed, force exit, reason "blocked" when
  \<open>trim r\<close> is in the block list; otherwise allowed, no force exit, empty reason when
  it is in the allow list; otherwise not allowed, force exit, reason "not allowed".
  The second version looks at the allow list first: allowed, no force exit, empty
  reason when \<open>trim r\<close> is in the allow list; otherwise not allowed, force exit, reason
  "device blocked" when it is in the block list; otherwise not allowed, force exit,
  reason "not allowed". For every input the reason is one of "missing deviceId",
  "blocked", "not allowed", "" in the first version and one of "missing deviceId",
  "device blocked", "not allowed", "" in the second.
\<close>

theorem check_decision:
  "(trim r \<noteq> [] \<longrightarrow>
      fst (check1 srv (Some r)) =
        sendJson 200 (Decision
          (if trim r \<in> set (block (state srv)) then
             \<lparr>allowed = False, forceExit = True, intervalSec = 30, reason = lit ''blocked''\<rparr>
           else if trim r \<in> set (allow (state srv)) then
             \<lparr>allowed = True, forceExit = False, intervalSec = 30, reason = []\<rparr>
           else
             \<lparr>allowed = False, forceExit = True, intervalSec = 30, reason = lit ''not allowed''\<rparr>))
    \<and> fst (check2 env d (Some r) now) =
        sendJson 200 (Decision
          (if trim r \<in> set (allow (store2 env d)) then
             \<lparr>allowed = True, forceExit = False, intervalSec = 30, reason = []\<rparr>
           else if trim r \<in> set (block (store2 env d)) then
             \<lparr>allowed = False, forceExit = True, intervalSec = 30, reason = lit ''device blocked''\<rparr>
           else
             \<lparr>allowed = False, forceExit = True, intervalSec = 30, reason = lit ''not allowed''\<rparr>)))
   \<and> (\<exists>c dec. fst (check1 srv q) = sendJson c (Decision dec)
         \<and> reason dec \<in> {(lit ''missing deviceId''), lit ''blocked'', lit ''not allowed'', []})
   \<and> (\<exists>c dec. fst (check2 env d q now) = sendJson c (Decision dec)
         \<and> reason dec \<in> {(lit ''missing deviceId''), lit ''device blocked'', lit ''not allowed'', []})"
proof (intro conjI impI)
  assume t: "trim r \<noteq> []"
  have o: "trim (or_string (Some r) []) = trim r" by simp
  show "fst (check1 srv (Some r)) =
        sendJson 200 (Decision
          (if trim r \<in> set (block (state srv)) then
             \<lparr>allowed = False, forceExit = True, intervalSec = 30, reason = lit ''blocked''\<rparr>
           else if trim r \<in> set (allow (state srv)) then
             \<lparr>allowed = True, forceExit = False, intervalSec = 30, reason = []\<rparr>
           else
             \<lparr>allowed = False, forceExit = True, intervalSec = 30, reason = lit ''not allowed''\<rparr>))"
    by (rule check1_reply [OF o t])
  show "fst (check2 env d (Some r) now) =
        sendJson 200 (Decision
          (if trim r \<in> set (allow (store2 env d)) then
             \<lparr>allowed = True, forceExit = False, intervalSec = 30, reason = []\<rparr>
           else if trim r \<in> set (block (store2 env d)) then
             \<lparr>allowed = False, forceExit = True, intervalSec = 30, reason = lit ''device blocked''\<rparr>
           else
             \<lparr>allowed = False, forceExit = True, intervalSec = 30, reason = lit ''not allowed''\<rparr>))"
    by (rule check2_reply [OF o t])
qed (rule check1_reason check2_reason)+

theorem check_decision_witness:
  "trim (lit ''dev1'') \<noteq> []
   \<and> fst (check1 (snd (block1 (boot None \<lparr>stored = Missing, writable = True\<rparr>) (Obj (Some (lit ''dev1'')))))
        (Some (lit ''dev1''))) =
      sendJson 200 (Decision
        \<lparr>allowed = False, forceExit = True, intervalSec = 30, reason = lit ''blocked''\<rparr>)
   \<and> fst (check2 None (snd (block2 None \<lparr>stored = Missing, writable = True\<rparr> (Obj (Some (lit ''dev1'')))))
        (Some (lit ''dev1'')) (lit ''2024-01-01T00:00:00.000Z'')) =
      sendJson 200 (Decision
        \<lparr>allowed = False, forceExit = True, intervalSec = 30, reason = lit ''device blocked''\<rparr>)"
proof -
  have h: "trim (lit ''dev1'') \<noteq> []"
    by (simp add: trim_dev1)
  show ?thesis
    using h
      check_decision [of "lit ''dev1''"
        "snd (block1 (boot None \<lparr>stored = Missing, writable = True\<rparr>) (Obj (Some (lit ''dev1''))))"
        None "snd (block2 None \<lparr>stored = Missing, writable = True\<rparr> (Obj (Some (lit ''dev1''))))"
        "lit ''2024-01-01T00:00:00.000Z''"]
    by (simp add: blocked1_dev1 blocked2_dev1 trim_dev1)
qed

text \<open>
  C2 as stated fails in the second version, at three inputs. After \<^verbatim>\<open>"dev1"\<close> is
  blocked on a store with no prior state, it is in the block list and a check of it
  gives the reason "device blocked", which is not "blocked". After \<^verbatim>\<open>" dev1 "\<close> is
  allowed on a store with no prior state, that string is in the allow list and a check
  of it is not allowed, because the check looks up \<^verbatim>\<open>"dev1"\<close>. On a data file that
  has \<^verbatim>\<open>"dev1"\<close> in both lists, the check of it is allowed: the allow list is
  looked at first.
\<close>

theorem check2_decision_counterexample:
  "lit ''dev1'' \<in> set (block (store2 None
       (snd (block2 None \<lparr>stored = Missing, writable = True\<rparr> (Obj (Some (lit ''dev1'')))))))
   \<and> fst (check2 None (snd (block2 None \<lparr>stored = Missing, writable = True\<rparr>
          (Obj (Some (lit ''dev1''))))) (Some (lit ''dev1'')) (lit ''2024-01-01T00:00:00.000Z'')) =
      sendJson 200 (Decision
        \<lparr>allowed = False, forceExit = True, intervalSec = 30, reason = lit ''device blocked''\<rparr>)
   \<and> lit ''device blocked'' \<noteq> lit ''blocked''
   \<and> lit '' dev1 '' \<in> set (allow (store2 None
       (snd (allow2 None \<lparr>stored = Missing, writable = True\<rparr> (Obj (Some (lit '' dev1 '')))))))
   \<and> fst (check2 None (snd (allow2 None \<lparr>stored = Missing, writable = True\<rparr>
          (Obj (Some (lit '' dev1 ''))))) (Some (lit '' dev1 '')) (lit ''2024-01-01T00:00:00.000Z'')) =
      sendJson 200 (Decision
        \<lparr>allowed = False, forceExit = True, intervalSec = 30, reason = lit ''not allowed''\<rparr>)
   \<and> lit ''dev1'' \<in> set (block (store2 None \<lparr>stored = Holds (Json
        \<lparr>p_adminToken = Some (lit ''t''), p_allow = Some [lit ''dev1''],
         p_block = Some [lit ''dev1''], p_pending = Some [], p_lastSeen = Some Map.empty\<rparr>),
        writable = True\<rparr>))
   \<and> fst (check2 None \<lparr>stored = Holds (Json
        \<lparr>p_adminToken = Some (lit ''t''), p_allow = Some [lit ''dev1''],
         p_block = Some [lit ''dev1''], p_pending = Some [], p_lastSeen = Some Map.empty\<rparr>),
        writable = True\<rparr> (Some (lit ''dev1'')) (lit ''2024-01-01T00:00:00.000Z'')) =
      sendJson 200 (Decision
        \<lparr>allowed = True, forceExit = False, intervalSec = 30, reason = []\<rparr>)"
proof -
  let ?f = "\<lparr>stored = Missing, writable = True\<rparr> :: parsed2 fs"
  let ?g = "\<lparr>stored = Holds (Json
        \<lparr>p_adminToken = Some (lit ''t''), p_allow = Some [lit ''dev1''],
         p_block = Some [lit ''dev1''], p_pending = Some [], p_lastSeen = Some Map.empty\<rparr>),
        writable = True\<rparr>"
  have pf: "persists ?f"
    by (simp add: persists_def)
  have ne: "lit '' dev1 '' \<noteq> lit ''dev1''" "lit ''device blocked'' \<noteq> lit ''blocked''"
    by (simp_all add: lit_def)
  have a: "store2 None (snd (allow2 None ?f (Obj (Some (lit '' dev1 ''))))) =
      \<lparr>adminToken = DEFAULT_ADMIN_TOKEN None, allow = [lit '' dev1 ''], block = [],
       pending = [], lastSeen = Map.empty\<rparr>"
    by (simp add: allow2_store pf store2_fresh fresh_def Let_def)
  have g: "store2 None ?g = \<lparr>adminToken = lit ''t'', allow = [lit ''dev1''],
      block = [lit ''dev1''], pending = [], lastSeen = Map.empty\<rparr>"
    by (simp add: loadServerData_def existsSync_def readFileSync_def JSON_parse_def)
  have c1: "fst (check2 None (snd (block2 None ?f (Obj (Some (lit ''dev1'')))))
      (Some (lit ''dev1'')) (lit ''2024-01-01T00:00:00.000Z'')) =
      sendJson 200 (Decision
        \<lparr>allowed = False, forceExit = True, intervalSec = 30, reason = lit ''device blocked''\<rparr>)"
    by (simp add: check2_reply [where k = "lit ''dev1''"] blocked2_dev1 trim_dev1)
  have c2: "fst (check2 None (snd (allow2 None ?f (Obj (Some (lit '' dev1 '')))))
      (Some (lit '' dev1 '')) (lit ''2024-01-01T00:00:00.000Z'')) =
      sendJson 200 (Decision
        \<lparr>allowed = False, forceExit = True, intervalSec = 30, reason = lit ''not allowed''\<rparr>)"
    using ne by (simp add: check2_reply [where k = "lit ''dev1''"] a trim_padded_dev1)
  have c3: "fst (check2 None ?g (Some (lit ''dev1'')) (lit ''2024-01-01T00:00:00.000Z'')) =
      sendJson 200 (Decision
        \<lparr>allowed = True, forceExit = False, intervalSec = 30, reason = []\<rparr>)"
    by (simp add: check2_reply [where k = "lit ''dev1''"] g trim_dev1)
  from c1 c2 c3 ne show ?thesis
    by (simp add: blocked2_dev1 a g)
qed


subsection \<open>Repeated checks\<close>





subsection \<open>The time a device was last seen\<close>

text \<open>
  C5, as the code has it. Only the second version keeps \<^verbatim>\<open>lastSeen\<close>, under the
  trimmed identifier. In the second version, for an identifier \<open>r\<close> with \<open>trim r\<close> not
  empty and not the key \<^verbatim>\<open>__proto__\<close>, a check of \<open>r\<close> at time \<open>now\<close> whose write
  goes through and can be read back leaves \<open>lastSeen\<close> of \<open>trim r\<close> equal to \<open>now\<close>,
  whatever the classification of the device, and \<^verbatim>\<open>/list\<close> then returns that
  \<^verbatim>\<open>lastSeen\<close>; when the write does not go through, \<^verbatim>\<open>lastSeen\<close> is as it was. In the
  first version a check changes nothing and \<^verbatim>\<open>/list\<close> returns the allow and block
  lists only.
\<close>

theorem check_records_lastSeen:
  fixes srv :: server and d :: "parsed2 fs" and r :: jsstring and env :: "jsstring option"
    and q :: "jsstring option" and now :: jsstring
  defines "d1 \<equiv> snd (check2 env d (Some r) now)"
  shows "(trim r \<noteq> [] \<and> trim r \<noteq> lit ''__proto__'' \<and> persists d \<longrightarrow>
            lastSeen (store2 env d1) (trim r) = Some now
          \<and> fst (list2 env d1) =
              sendJson 200 (Listing2 (allow (store2 env d1)) (block (store2 env d1))
                (pending (store2 env d1)) (lastSeen (store2 env d1))))
       \<and> (\<not> persists d \<longrightarrow> lastSeen (store2 env d1) = lastSeen (store2 env d))
       \<and> snd (check1 srv q) = srv
       \<and> fst (list1 srv) = sendJson 200 (Listing (allow (state srv)) (block (state srv)))"
proof (intro conjI impI)
  assume "trim r \<noteq> [] \<and> trim r \<noteq> lit ''__proto__'' \<and> persists d"
  then have h: "trim (or_string (Some r) []) = trim r" "trim r \<noteq> []"
      "trim r \<noteq> lit ''__proto__''" "persists d"
    by simp_all
  show "lastSeen (store2 env d1) (trim r) = Some now"
    unfolding d1_def by (rule check2_lastSeen [OF h])
  show "fst (list2 env d1) =
          sendJson 200 (Listing2 (allow (store2 env d1)) (block (store2 env d1))
            (pending (store2 env d1)) (lastSeen (store2 env d1)))"
    by (rule list2_reply)
next
  assume n: "\<not> persists d"
  show "lastSeen (store2 env d1) = lastSeen (store2 env d)"
  proof (cases "trim (or_string (Some r) []) = []")
    case True
    then show ?thesis by (simp add: d1_def check2_def)
  next
    case False
    show ?thesis
      using n by (simp add: d1_def check2_store [OF refl False])
  qed
next
  show "snd (check1 srv q) = srv"
    by (rule check1_state)
  show "fst (list1 srv) = sendJson 200 (Listing (allow (state srv)) (block (state srv)))"
    by (simp add: list1_def)
qed

text \<open>The witness checks a device that is already allowed, under an identifier padded
  with a no-break space (U+00A0), and the same on a data file that cannot be written.\<close>

theorem check_records_lastSeen_witness:
  "(trim (0x00A0 # lit ''dev1 '') \<noteq> [] \<and> trim (0x00A0 # lit ''dev1 '') \<noteq> lit ''__proto__''
      \<and> persists (snd (allow2 None \<lparr>stored = Missing, writable = True\<rparr> (Obj (Some (lit ''dev1''))))))
   \<and> \<not> persists \<lparr>stored = Missing, writable = False\<rparr>
   \<and> lit ''dev1'' \<in> set (allow (store2 None
        (snd (allow2 None \<lparr>stored = Missing, writable = True\<rparr> (Obj (Some (lit ''dev1'')))))))
   \<and> lastSeen (store2 None (snd (check2 None
        (snd (allow2 None \<lparr>stored = Missing, writable = True\<rparr> (Obj (Some (lit ''dev1'')))))
        (Some (0x00A0 # lit ''dev1 '')) (lit ''2024-01-01T00:00:00.000Z'')))) (lit ''dev1'')
      = Some (lit ''2024-01-01T00:00:00.000Z'')
   \<and> lastSeen (store2 None (snd (check2 None \<lparr>stored = Missing, writable = False\<rparr>
        (Some (0x00A0 # lit ''dev1 '')) (lit ''2024-01-01T00:00:00.000Z'')))) (lit ''dev1'') = None"
proof -
  have t: "trim (0x00A0 # lit ''dev1 '') = lit ''dev1''"
    by (simp add: trim_def is_space_def lit_def)
  have ne: "lit ''dev1'' \<noteq> lit ''__proto__''"
    by (simp add: lit_def)
  have "persists \<lparr>stored = Missing, writable = True\<rparr>"
    by (simp add: persists_def)
  then have p: "persists (snd (allow2 None \<lparr>stored = Missing, writable = True\<rparr>
      (Obj (Some (lit ''dev1'')))))"
    by (simp add: allow2_def split_beta Let_def persists_save2 persists_load2)
  have n: "\<not> persists \<lparr>stored = Missing, writable = False\<rparr>"
    by (simp add: persists_def)
  have f: "lastSeen (store2 None \<lparr>stored = Missing, writable = False\<rparr>) = Map.empty"
    by (simp add: store2_fresh fresh_def)
  have a: "lastSeen (store2 None (snd (check2 None
        (snd (allow2 None \<lparr>stored = Missing, writable = True\<rparr> (Obj (Some (lit ''dev1'')))))
        (Some (0x00A0 # lit ''dev1 '')) (lit ''2024-01-01T00:00:00.000Z'')))) (lit ''dev1'')
      = Some (lit ''2024-01-01T00:00:00.000Z'')"
    using p ne
      check_records_lastSeen [of "0x00A0 # lit ''dev1 ''"
        "snd (allow2 None \<lparr>stored = Missing, writable = True\<rparr> (Obj (Some (lit ''dev1''))))" None
        "lit ''2024-01-01T00:00:00.000Z''"]
    by (simp add: t)
  have b: "lastSeen (store2 None (snd (check2 None \<lparr>stored = Missing, writable = False\<rparr>
        (Some (0x00A0 # lit ''dev1 '')) (lit ''2024-01-01T00:00:00.000Z'')))) =
        lastSeen (store2 None \<lparr>stored = Missing, writable = False\<rparr>)"
    using n
      check_records_lastSeen [of "0x00A0 # lit ''dev1 ''"
        "\<lparr>stored = Missing, writable = False\<rparr>" None "lit ''2024-01-01T00:00:00.000Z''"]
    by blast
  from a p n ne show ?thesis
    by (simp add: t allowed2_dev1 b f)
qed

text \<open>
  C5 as stated fails at three inputs. In the second version a check of \<^verbatim>\<open>" dev1 "\<close> on a
  store with no prior state records the time under \<^verbatim>\<open>"dev1"\<close> and nothing under the
  identifier that was sent. In the second version on a data file that is missing and
  cannot be written, a check of \<^verbatim>\<open>"dev1"\<close> records no time that a later load or
  \<^verbatim>\<open>/list\<close> shows. In the first version a check of \<^verbatim>\<open>"dev1"\<close> leaves the process as it
  was and \<^verbatim>\<open>/list\<close> shows two empty lists and no time.
\<close>

theorem check_lastSeen_counterexample:
  "lastSeen (store2 None (snd (check2 None \<lparr>stored = Missing, writable = True\<rparr>
      (Some (lit '' dev1 '')) (lit ''2024-01-01T00:00:00.000Z'')))) (lit '' dev1 '') = None
   \<and> lastSeen (store2 None (snd (check2 None \<lparr>stored = Missing, writable = True\<rparr>
      (Some (lit '' dev1 '')) (lit ''2024-01-01T00:00:00.000Z'')))) (lit ''dev1'')
      = Some (lit ''2024-01-01T00:00:00.000Z'')
   \<and> lastSeen (store2 None (snd (check2 None \<lparr>stored = Missing, writable = False\<rparr>
      (Some (lit ''dev1'')) (lit ''2024-01-01T00:00:00.000Z'')))) (lit ''dev1'') = None
   \<and> fst (list2 None (snd (check2 None \<lparr>stored = Missing, writable = False\<rparr>
      (Some (lit ''dev1'')) (lit ''2024-01-01T00:00:00.000Z'')))) =
        sendJson 200 (Listing2 [] [] [] Map.empty)
   \<and> snd (check1 (boot None \<lparr>stored = Missing, writable = True\<rparr>) (Some (lit ''dev1''))) =
        boot None \<lparr>stored = Missing, writable = True\<rparr>
   \<and> fst (list1 (snd (check1 (boot None \<lparr>stored = Missing, writable = True\<rparr>)
        (Some (lit ''dev1''))))) = sendJson 200 (Listing [] [])"
proof -
  let ?f = "\<lparr>stored = Missing, writable = True\<rparr> :: parsed2 fs"
  let ?u = "\<lparr>stored = Missing, writable = False\<rparr> :: parsed2 fs"
  have t: "trim (or_string (Some (lit '' dev1 '')) []) = lit ''dev1''" "lit ''dev1'' \<noteq> []"
    by (simp_all add: trim_padded_dev1)
  have t': "trim (or_string (Some (lit ''dev1'')) []) = lit ''dev1''"
    by (simp add: trim_dev1)
  have ne: "lit '' dev1 '' \<noteq> lit ''dev1''" "lit ''dev1'' \<noteq> lit ''__proto__''"
    by (simp_all add: lit_def)
  have f: "fresh ?f" "fresh ?u" "fresh \<lparr>stored = Missing, writable = True\<rparr>"
    by (simp_all add: fresh_def)
  have pf: "persists ?f" and pu: "\<not> persists ?u"
    by (simp_all add: persists_def)
  have s: "lastSeen (store2 None (snd (check2 None ?f
      (Some (lit '' dev1 '')) (lit ''2024-01-01T00:00:00.000Z'')))) =
      [lit ''dev1'' \<mapsto> lit ''2024-01-01T00:00:00.000Z'']"
    using pf ne by (simp add: check2_store [OF t] store2_fresh f Let_def obj_set_def)
  have u: "store2 None (snd (check2 None ?u
      (Some (lit ''dev1'')) (lit ''2024-01-01T00:00:00.000Z''))) =
      \<lparr>adminToken = DEFAULT_ADMIN_TOKEN None, allow = [], block = [], pending = [],
       lastSeen = Map.empty\<rparr>"
    using pu by (simp add: check2_store [OF t' t(2)] store2_fresh f)
  from s u ne show ?thesis
    by (simp add: list2_reply check1_state list1_def boot_fresh f)
qed


subsection \<open>Allow and block stay disjoint\<close>

text \<open>
  C1. Invariant I1 holds in every reachable state of the store: no device identifier is
  at the same time in the allow list and in the block list. For the first version the
  store is the variable \<^verbatim>\<open>state\<close> of a process started on a data file with no prior
  state, after any sequence of requests, restarts and changes of the file's
  writability; for the second version it is what the data file loads to, after any
  sequence of requests. Each handler that adds an identifier to one list filters it
  out of the other, and no other handler adds to either list.
\<close>

theorem allow_block_disjoint:
  "(reachable1 env srv \<longrightarrow> \<not> (x \<in> set (allow (state srv)) \<and> x \<in> set (block (state srv))))
   \<and> (reachable2 env d \<longrightarrow>
        \<not> (x \<in> set (allow (store2 env d)) \<and> x \<in> set (block (store2 env d))))"
  using reachable1_inv [of env srv] reachable2_inv [of env d] by blast

theorem allow_block_disjoint_witness:
  "reachable1 None
     (snd (handle1 (snd (handle1 (boot None \<lparr>stored = Missing, writable = True\<rparr>)
        (Some (lit ''admin_7f9e2a1b_8c4d_9e5f_0a1b_2c3d4e5f6a7b'')) (Allow (Obj (Some (lit ''dev1''))))))
        (Some (lit ''admin_7f9e2a1b_8c4d_9e5f_0a1b_2c3d4e5f6a7b'')) (Block (Obj (Some (lit ''dev1''))))))
   \<and> reachable2 None
     (snd (handle2 None (snd (handle2 None \<lparr>stored = Missing, writable = True\<rparr>
        (Some (lit ''admin_7f9e2a1b_8c4d_9e5f_0a1b_2c3d4e5f6a7b'')) (Allow (Obj (Some (lit ''dev1''))))))
        (Some (lit ''admin_7f9e2a1b_8c4d_9e5f_0a1b_2c3d4e5f6a7b'')) (Block (Obj (Some (lit ''dev1''))))))
   \<and> block (state
     (snd (handle1 (snd (handle1 (boot None \<lparr>stored = Missing, writable = True\<rparr>)
        (Some (lit ''admin_7f9e2a1b_8c4d_9e5f_0a1b_2c3d4e5f6a7b'')) (Allow (Obj (Some (lit ''dev1''))))))
        (Some (lit ''admin_7f9e2a1b_8c4d_9e5f_0a1b_2c3d4e5f6a7b'')) (Block (Obj (Some (lit ''dev1''))))))) = [lit ''dev1'']
   \<and> block (store2 None
     (snd (handle2 None (snd (handle2 None \<lparr>stored = Missing, writable = True\<rparr>
        (Some (lit ''admin_7f9e2a1b_8c4d_9e5f_0a1b_2c3d4e5f6a7b'')) (Allow (Obj (Some (lit ''dev1''))))))
        (Some (lit ''admin_7f9e2a1b_8c4d_9e5f_0a1b_2c3d4e5f6a7b'')) (Block (Obj (Some (lit ''dev1''))))))) = [lit ''dev1'']
   \<and> \<not> ((lit ''dev1'') \<in> set (allow (state
     (snd (handle1 (snd (handle1 (boot None \<lparr>stored = Missing, writable = True\<rparr>)
        (Some (lit ''admin_7f9e2a1b_8c4d_9e5f_0a1b_2c3d4e5f6a7b'')) (Allow (Obj (Some (lit ''dev1''))))))
        (Some (lit ''admin_7f9e2a1b_8c4d_9e5f_0a1b_2c3d4e5f6a7b'')) (Block (Obj (Some (lit ''dev1''))))))))
       \<and> (lit ''dev1'') \<in> set (block (state
     (snd (handle1 (snd (handle1 (boot None \<lparr>stored = Missing, writable = True\<rparr>)
        (Some (lit ''admin_7f9e2a1b_8c4d_9e5f_0a1b_2c3d4e5f6a7b'')) (Allow (Obj (Some (lit ''dev1''))))))
        (Some (lit ''admin_7f9e2a1b_8c4d_9e5f_0a1b_2c3d4e5f6a7b'')) (Block (Obj (Some (lit ''dev1'')))))))))
   \<and> \<not> ((lit ''dev1'') \<in> set (allow (store2 None
     (snd (handle2 None (snd (handle2 None \<lparr>stored = Missing, writable = True\<rparr>
        (Some (lit ''admin_7f9e2a1b_8c4d_9e5f_0a1b_2c3d4e5f6a7b'')) (Allow (Obj (Some (lit ''dev1''))))))
        (Some (lit ''admin_7f9e2a1b_8c4d_9e5f_0a1b_2c3d4e5f6a7b'')) (Block (Obj (Some (lit ''dev1''))))))))
       \<and> (lit ''dev1'') \<in> set (block (store2 None
     (snd (handle2 None (snd (handle2 None \<lparr>stored = Missing, writable = True\<rparr>
        (Some (lit ''admin_7f9e2a1b_8c4d_9e5f_0a1b_2c3d4e5f6a7b'')) (Allow (Obj (Some (lit ''dev1''))))))
        (Some (lit ''admin_7f9e2a1b_8c4d_9e5f_0a1b_2c3d4e5f6a7b'')) (Block (Obj (Some (lit ''dev1'')))))))))"
proof -
  let ?t = "lit ''admin_7f9e2a1b_8c4d_9e5f_0a1b_2c3d4e5f6a7b''"
  let ?f = "\<lparr>stored = Missing, writable = True\<rparr> :: parsed fs"
  let ?g = "\<lparr>stored = Missing, writable = True\<rparr> :: parsed2 fs"
  let ?a1 = "snd (handle1 (boot None ?f) (Some ?t) (Allow (Obj (Some (lit ''dev1'')))))"
  let ?s = "snd (handle1 ?a1 (Some ?t) (Block (Obj (Some (lit ''dev1'')))))"
  let ?a2 = "snd (handle2 None ?g (Some ?t) (Allow (Obj (Some (lit ''dev1'')))))"
  let ?d = "snd (handle2 None ?a2 (Some ?t) (Block (Obj (Some (lit ''dev1'')))))"
  have r1: "reachable1 None ?s"
    by (intro reachable1.request1 reachable1.start1) (simp add: fresh_def)
  have r2: "reachable2 None ?d"
    by (intro reachable2.request2 reachable2.start2) (simp add: fresh_def)
  have tok: "DEFAULT_ADMIN_TOKEN None = ?t"
    by (simp add: DEFAULT_ADMIN_TOKEN_def)
  have s1: "state ?a1 = \<lparr>adminToken = ?t, allow = [lit ''dev1''], block = []\<rparr>"
    by (simp add: handle1_def isAuthorized_def allow1_def readBody_def Let_def trim_dev1
        boot_fresh fresh_def tok)
  have s: "state ?s = \<lparr>adminToken = ?t, allow = [], block = [lit ''dev1'']\<rparr>"
    by (simp add: handle1_def [of ?a1] isAuthorized_def block1_def readBody_def Let_def
        trim_dev1 s1)
  have pg: "persists ?g"
    by (simp add: persists_def)
  have f2: "store2 None ?g = \<lparr>adminToken = ?t, allow = [], block = [], pending = [],
      lastSeen = Map.empty\<rparr>"
    by (simp add: store2_fresh fresh_def tok)
  have d1: "?a2 = snd (allow2 None (snd (loadServerData None ?g)) (Obj (Some (lit ''dev1''))))"
    by (simp add: handle2_def authenticateRequest_def split_beta Let_def f2)
  have pa: "persists ?a2"
    using pg by (simp add: d1 allow2_def split_beta Let_def persists_save2 persists_load2)
  have sa: "store2 None ?a2 = \<lparr>adminToken = ?t, allow = [lit ''dev1''], block = [],
      pending = [], lastSeen = Map.empty\<rparr>"
    using pg by (simp add: d1 allow2_store persists_load2 load2_twice f2 Let_def)
  have d2: "?d = snd (block2 None (snd (loadServerData None ?a2)) (Obj (Some (lit ''dev1''))))"
    by (simp add: handle2_def [of None ?a2] authenticateRequest_def split_beta Let_def sa)
  have sd: "store2 None ?d = \<lparr>adminToken = ?t, allow = [], block = [lit ''dev1''],
      pending = [], lastSeen = Map.empty\<rparr>"
    using pa by (simp add: d2 block2_store persists_load2 load2_twice sa Let_def)
  show ?thesis
    using r1 r2 allow_block_disjoint [of None ?s "lit ''dev1''" ?d]
    by (simp add: s sd)
qed

end
